theory Spec2Isabelle
  imports Main "HOL-Library.Sublist"
begin

section \<open>Python values, strings and exceptions\<close>

text \<open>
  The server is \<^verbatim>\<open>src/git/src/mcp_server_git/server.py\<close>. Python strings are
  modelled as HOL strings; the only string operations the source uses are
  concatenation (f-strings, \<^verbatim>\<open>str.join\<close>), \<^verbatim>\<open>str.startswith\<close> and the
  substring test \<^verbatim>\<open>x in s\<close>.
\<close>

fun startswith :: "string \<Rightarrow> string \<Rightarrow> bool" where
  "startswith s [] = True"
| "startswith [] (p # ps) = False"
| "startswith (c # s) (p # ps) = (c = p \<and> startswith s ps)"

text \<open>\<^verbatim>\<open>sub in s\<close> on strings.\<close>

fun contains :: "string \<Rightarrow> string \<Rightarrow> bool" where
  "contains [] sub = (sub = [])"
| "contains (c # s) sub = (startswith (c # s) sub \<or> contains s sub)"

text \<open>\<^verbatim>\<open>sep.join(xs)\<close>.\<close>

fun join :: "string \<Rightarrow> string list \<Rightarrow> string" where
  "join sep [] = []"
| "join sep [x] = x"
| "join sep (x # y # ys) = x @ sep @ join sep (y # ys)"

text \<open>The values an argument mapping can hold (the JSON values the schemas admit).\<close>

datatype pyval =
    PNone
  | PBool bool
  | PInt int
  | PStr string
  | PStrList "string list"

text \<open>Python truthiness, as the tests \<^verbatim>\<open>if base_branch:\<close>, \<^verbatim>\<open>if branch:\<close> use it.\<close>

fun truthy :: "pyval \<Rightarrow> bool" where
  "truthy PNone = False"
| "truthy (PBool b) = b"
| "truthy (PInt i) = (i \<noteq> 0)"
| "truthy (PStr s) = (s \<noteq> [])"
| "truthy (PStrList xs) = (xs \<noteq> [])"

fun str_nat :: "nat \<Rightarrow> string" where
  "str_nat n =
     (if n < 10 then [char_of (48 + n)]
      else str_nat (n div 10) @ [char_of (48 + n mod 10)])"

declare str_nat.simps [simp del]

definition str_int :: "int \<Rightarrow> string" where
  "str_int i = (if i < 0 then CHR ''-'' # str_nat (nat (- i)) else str_nat (nat i))"

text \<open>
  The exceptions the source raises, catches or lets through. \<open>GitCommandError\<close>
  carries \<^verbatim>\<open>str(e)\<close>, the text the source searches.
\<close>

datatype exn =
    KeyError string
  | TypeError string
  | ValueError string
  | IndexError string
  | AttributeError string
  | StopIteration
  | UnicodeDecodeError string
  | GitCommandError string
  | InvalidGitRepositoryError string
  | NoSuchPathError string
  | OtherError string

text \<open>\<^verbatim>\<open>'...'\<close>: the text between single quotes, as the f-strings write it.\<close>

definition squote :: "string \<Rightarrow> string" where
  "squote s = CHR 0x27 # s @ [CHR 0x27]"

section \<open>The version-control toolchain\<close>

text \<open>
  The source delegates every repository access to the GitPython library and,
  through it, to git. Neither is part of the repository, so the model takes them
  as a parameter: a record of the library calls the source makes, over an
  arbitrary type \<open>'w\<close> of on-disk states. A call that runs a git process or
  writes the repository returns the new state together with its result, also
  when it raises; a call that only reads returns its result.
\<close>

text \<open>What a git process or a library attribute hands back: \<^verbatim>\<open>str\<close> or \<^verbatim>\<open>bytes\<close>.\<close>

datatype pytext = PyStr string | PyBytes string

text \<open>
  \<^verbatim>\<open>git.Repo\<close>: the opened handle. \<open>environment\<close> is the environment its
  \<^verbatim>\<open>repo.git\<close> command object passes to the processes it starts.
\<close>

record repo =
  working_dir :: string
  environment :: "string \<rightharpoonup> string"

text \<open>
  A commit object: \<open>author\<close> and \<open>authored_datetime\<close> hold the text the
  f-strings print for them, \<open>parents\<close> the parents' ids, first parent first.
\<close>

record commit =
  hexsha :: string
  author :: string
  authored_datetime :: string
  message :: string
  parents :: "string list"

text \<open>A branch or other reference, \<^verbatim>\<open>str(ref)\<close> and \<^verbatim>\<open>ref.name\<close> being its name.\<close>

datatype reference = Reference (ref_name: string)

record remote =
  remote_name :: string
  remote_url :: string

text \<open>One entry of a diff made with \<^verbatim>\<open>create_patch=True\<close>.\<close>

record Diff =
  a_path :: "pytext option"
  b_path :: "pytext option"
  diff :: pytext

type_synonym ('a, 'w) io = "'w \<Rightarrow> (exn + 'a) \<times> 'w"

record 'w toolchain =
  Repo :: "string \<Rightarrow> 'w \<Rightarrow> exn + repo"
  git :: "repo \<Rightarrow> string \<Rightarrow> pyval list \<Rightarrow> (pytext, 'w) io"
  index_commit :: "repo \<Rightarrow> pyval \<Rightarrow> (commit, 'w) io"
  index_add :: "repo \<Rightarrow> pyval \<Rightarrow> (unit, 'w) io"
  index_reset :: "repo \<Rightarrow> (unit, 'w) io"
  iter_commits :: "repo \<Rightarrow> pyval \<Rightarrow> (commit list, 'w) io"
  heads :: "repo \<Rightarrow> 'w \<Rightarrow> exn + reference list"
  heads_getitem :: "repo \<Rightarrow> pyval \<Rightarrow> 'w \<Rightarrow> exn + reference"
  refs_getitem :: "repo \<Rightarrow> pyval \<Rightarrow> 'w \<Rightarrow> exn + reference"
  active_branch :: "repo \<Rightarrow> 'w \<Rightarrow> exn + reference"
  create_head :: "repo \<Rightarrow> pyval \<Rightarrow> reference \<Rightarrow> (reference, 'w) io"
  rev_commit :: "repo \<Rightarrow> pyval \<Rightarrow> 'w \<Rightarrow> exn + commit"
  diff_parent :: "repo \<Rightarrow> string \<Rightarrow> commit \<Rightarrow> (Diff list, 'w) io"
  diff_null_tree :: "repo \<Rightarrow> commit \<Rightarrow> (Diff list, 'w) io"
  remote_of :: "repo \<Rightarrow> pyval \<Rightarrow> 'w \<Rightarrow> exn + remote"
  remotes :: "repo \<Rightarrow> 'w \<Rightarrow> exn + remote list"
  remote_push :: "repo \<Rightarrow> remote \<Rightarrow> pyval option \<Rightarrow> (unit, 'w) io"
  remote_fetch :: "repo \<Rightarrow> remote \<Rightarrow> (unit, 'w) io"
  config_set_value :: "repo \<Rightarrow> string \<Rightarrow> string \<Rightarrow> string \<Rightarrow> (unit, 'w) io"
  create_remote :: "repo \<Rightarrow> pyval \<Rightarrow> pyval \<Rightarrow> (unit, 'w) io"
  delete_remote :: "repo \<Rightarrow> remote \<Rightarrow> (unit, 'w) io"
  utf8_decode :: "string \<Rightarrow> exn + string"
  py_repr :: "string \<Rightarrow> string"

text \<open>
  The fields, by the call of the source they stand for:
  \<open>Repo\<close> is \<^verbatim>\<open>git.Repo(path)\<close>;
  \<open>git tc repo name args\<close> is \<^verbatim>\<open>repo.git.<name>(*args)\<close>, a git process
  (a reference among the arguments is passed by its name);
  \<open>index_commit\<close>, \<open>index_add\<close>, \<open>index_reset\<close> are \<^verbatim>\<open>repo.index.commit\<close>,
  \<^verbatim>\<open>repo.index.add\<close>, \<^verbatim>\<open>repo.index.reset\<close>;
  \<open>iter_commits\<close> is \<^verbatim>\<open>list(repo.iter_commits(max_count=n))\<close>;
  \<open>heads\<close>, \<open>heads_getitem\<close>, \<open>refs_getitem\<close> are \<^verbatim>\<open>repo.heads\<close>,
  \<^verbatim>\<open>repo.heads[x]\<close>, \<^verbatim>\<open>repo.refs[x]\<close>;
  \<open>active_branch\<close> and \<open>create_head\<close> are \<^verbatim>\<open>repo.active_branch\<close>,
  \<^verbatim>\<open>repo.create_head(name, base)\<close>;
  \<open>rev_commit\<close> is \<^verbatim>\<open>repo.commit(revision)\<close>;
  \<open>diff_parent tc repo p c\<close> is \<^verbatim>\<open>parent.diff(commit, create_patch=True)\<close> for
  the parent with id \<open>p\<close>, \<open>diff_null_tree\<close> is
  \<^verbatim>\<open>commit.diff(git.NULL_TREE, create_patch=True)\<close>;
  \<open>remote_of\<close>, \<open>remotes\<close> are \<^verbatim>\<open>repo.remote(name)\<close>, \<^verbatim>\<open>repo.remotes\<close>;
  \<open>remote_push\<close> (with or without a refspec) and \<open>remote_fetch\<close> are
  \<^verbatim>\<open>remote_obj.push\<close>, \<^verbatim>\<open>remote_obj.fetch\<close>;
  \<open>config_set_value\<close> is the \<^verbatim>\<open>with repo.config_writer() as config\<close> block
  with its one \<^verbatim>\<open>config.set_value(section, option, value)\<close>;
  \<open>create_remote\<close>, \<open>delete_remote\<close> are \<^verbatim>\<open>repo.create_remote\<close>,
  \<^verbatim>\<open>repo.delete_remote\<close>;
  \<open>utf8_decode\<close> is \<^verbatim>\<open>bytes.decode('utf-8')\<close> and \<open>py_repr\<close> is \<^verbatim>\<open>repr\<close> of a
  string, which Python uses to print the elements of a list.
\<close>

subsection \<open>Sequencing, raising and catching\<close>

definition io_return :: "'a \<Rightarrow> ('a, 'w) io" where
  "io_return a = (\<lambda>w. (Inr a, w))"

definition io_raise :: "exn \<Rightarrow> ('a, 'w) io" where
  "io_raise e = (\<lambda>w. (Inl e, w))"

definition io_result :: "exn + 'a \<Rightarrow> ('a, 'w) io" where
  "io_result r = (\<lambda>w. (r, w))"

definition io_read :: "('w \<Rightarrow> exn + 'a) \<Rightarrow> ('a, 'w) io" where
  "io_read f = (\<lambda>w. (f w, w))"

definition io_bind :: "('a, 'w) io \<Rightarrow> ('a \<Rightarrow> ('b, 'w) io) \<Rightarrow> ('b, 'w) io" where
  "io_bind m f = (\<lambda>w. case m w of (Inl e, w') \<Rightarrow> (Inl e, w') | (Inr a, w') \<Rightarrow> f a w')"

text \<open>\<^verbatim>\<open>try: m except ...: h\<close>; a handler re-raises what its clauses do not name.\<close>

definition io_try :: "('a, 'w) io \<Rightarrow> (exn \<Rightarrow> ('a, 'w) io) \<Rightarrow> ('a, 'w) io" where
  "io_try m h = (\<lambda>w. case m w of (Inl e, w') \<Rightarrow> h e w' | (Inr a, w') \<Rightarrow> (Inr a, w'))"

text \<open>\<^verbatim>\<open>str(v)\<close>, as an f-string prints an argument value.\<close>

fun py_str :: "'w toolchain \<Rightarrow> pyval \<Rightarrow> string" where
  "py_str tc PNone = ''None''"
| "py_str tc (PBool b) = (if b then ''True'' else ''False'')"
| "py_str tc (PInt i) = str_int i"
| "py_str tc (PStr s) = s"
| "py_str tc (PStrList xs) = ''['' @ join '', '' (map (py_repr tc) xs) @ '']''"

text \<open>\<^verbatim>\<open>x.decode('utf-8') if isinstance(x, bytes) else x\<close>.\<close>

definition as_text :: "'w toolchain \<Rightarrow> pytext \<Rightarrow> exn + string" where
  "as_text tc x = (case x of PyStr s \<Rightarrow> Inr s | PyBytes b \<Rightarrow> utf8_decode tc b)"

section \<open>The operation layer\<close>

text \<open>
  \<^verbatim>\<open>GIT_USERNAME\<close> and \<^verbatim>\<open>GIT_TOKEN\<close>, read once from the process environment
  (\<^verbatim>\<open>os.environ.get\<close>: \<open>None\<close> when the variable is not set).
\<close>

record credentials =
  GIT_USERNAME :: "string option"
  GIT_TOKEN :: "string option"

definition truthy_str :: "string option \<Rightarrow> bool" where
  "truthy_str v = (case v of None \<Rightarrow> False | Some s \<Rightarrow> s \<noteq> [])"

text \<open>
  \<^verbatim>\<open>with repo.git.custom_environment(**kwargs):\<close> the calls of the block run on
  the handle whose environment has every key of \<open>kwargs\<close> set (a \<open>None\<close> value
  unsets the key); the library restores the environment when the block is left.
\<close>

definition custom_environment :: "(string \<times> string option) list \<Rightarrow> repo \<Rightarrow> repo" where
  "custom_environment kwargs repo =
     repo\<lparr>environment := foldl (\<lambda>env (key, v). env(key := v)) (environment repo) kwargs\<rparr>"

definition git_status :: "'w toolchain \<Rightarrow> repo \<Rightarrow> (string, 'w) io" where
  "git_status tc repo =
     io_bind (git tc repo ''status'' []) (\<lambda>status_output.
     io_result (as_text tc status_output))"

definition git_diff_unstaged :: "'w toolchain \<Rightarrow> repo \<Rightarrow> (string, 'w) io" where
  "git_diff_unstaged tc repo =
     io_bind (git tc repo ''diff'' []) (\<lambda>diff_output.
     io_result (as_text tc diff_output))"

definition git_diff_staged :: "'w toolchain \<Rightarrow> repo \<Rightarrow> (string, 'w) io" where
  "git_diff_staged tc repo =
     io_bind (git tc repo ''diff'' [PStr ''--cached'']) (\<lambda>diff_output.
     io_result (as_text tc diff_output))"

definition git_diff :: "'w toolchain \<Rightarrow> repo \<Rightarrow> pyval \<Rightarrow> (string, 'w) io" where
  "git_diff tc repo target =
     io_bind (git tc repo ''diff'' [target]) (\<lambda>diff_output.
     io_result (as_text tc diff_output))"

definition git_commit :: "'w toolchain \<Rightarrow> repo \<Rightarrow> pyval \<Rightarrow> (string, 'w) io" where
  "git_commit tc repo msg =
     io_bind (index_commit tc repo msg) (\<lambda>commit.
     io_return (''Changes committed successfully with hash '' @ hexsha commit))"

definition git_add :: "'w toolchain \<Rightarrow> repo \<Rightarrow> pyval \<Rightarrow> (string, 'w) io" where
  "git_add tc repo files =
     io_bind (index_add tc repo files) (\<lambda>_.
     io_return ''Files staged successfully'')"

definition git_reset :: "'w toolchain \<Rightarrow> repo \<Rightarrow> (string, 'w) io" where
  "git_reset tc repo =
     io_bind (index_reset tc repo) (\<lambda>_.
     io_return ''All staged changes reset'')"

text \<open>The four-line f-string \<open>git_log\<close> and \<open>git_show\<close> both print for a commit.\<close>

definition commit_lines :: "commit \<Rightarrow> string" where
  "commit_lines commit =
     ''Commit: '' @ hexsha commit @ ''\<newline>'' @
     ''Author: '' @ author commit @ ''\<newline>'' @
     ''Date: '' @ authored_datetime commit @ ''\<newline>'' @
     ''Message: '' @ message commit @ ''\<newline>''"

definition git_log :: "'w toolchain \<Rightarrow> repo \<Rightarrow> pyval \<Rightarrow> (string list, 'w) io" where
  "git_log tc repo max_count =
     io_bind (iter_commits tc repo max_count) (\<lambda>commits.
     io_return (map commit_lines commits))"

text \<open>
  \<open>base.name\<close> and \<open>branch_name\<close> are \<^verbatim>\<open>str\<close> here (a reference's name, a JSON
  value), so the \<^verbatim>\<open>isinstance(..., bytes)\<close> alternatives of the source are never
  taken.
\<close>

definition git_create_branch ::
  "'w toolchain \<Rightarrow> repo \<Rightarrow> pyval \<Rightarrow> pyval \<Rightarrow> (string, 'w) io" where
  "git_create_branch tc repo branch_name base_branch =
     io_bind
       (if truthy base_branch then
          io_try (io_read (heads_getitem tc repo base_branch))
            (\<lambda>e. case e of
                IndexError _ \<Rightarrow>
                  io_raise (ValueError (''Branch '' @ squote (py_str tc base_branch) @ '' not found''))
              | AttributeError _ \<Rightarrow>
                  io_raise (ValueError (''Branch '' @ squote (py_str tc base_branch) @ '' not found''))
              | _ \<Rightarrow> io_raise e)
        else io_read (active_branch tc repo))
       (\<lambda>base.
     io_bind (create_head tc repo branch_name base) (\<lambda>new_branch.
     io_return (''Created branch '' @ squote (py_str tc branch_name) @
                '' from '' @ squote (ref_name base))))"

definition git_checkout :: "'w toolchain \<Rightarrow> repo \<Rightarrow> pyval \<Rightarrow> (string, 'w) io" where
  "git_checkout tc repo branch_name =
     io_bind (git tc repo ''checkout'' [branch_name]) (\<lambda>_.
     io_return (''Switched to branch '' @ squote (py_str tc branch_name)))"

definition path_text :: "'w toolchain \<Rightarrow> pytext option \<Rightarrow> exn + string" where
  "path_text tc p = (case p of None \<Rightarrow> Inr ''None'' | Some x \<Rightarrow> as_text tc x)"

text \<open>The loop \<^verbatim>\<open>for d in diff\<close> of \<open>git_show\<close>, appending to \<open>output\<close>.\<close>

fun show_entries :: "'w toolchain \<Rightarrow> Diff list \<Rightarrow> string list \<Rightarrow> exn + string list" where
  "show_entries tc [] output = Inr output"
| "show_entries tc (d # ds) output =
     (case path_text tc (a_path d) of Inl e \<Rightarrow> Inl e | Inr a \<Rightarrow>
      case path_text tc (b_path d) of Inl e \<Rightarrow> Inl e | Inr b \<Rightarrow>
      case as_text tc (diff d) of Inl e \<Rightarrow> Inl e | Inr diff_content \<Rightarrow>
        show_entries tc ds
          (output @ [''\<newline>--- '' @ a @ ''\<newline>+++ '' @ b @ ''\<newline>'', diff_content]))"

definition git_show :: "'w toolchain \<Rightarrow> repo \<Rightarrow> pyval \<Rightarrow> (string, 'w) io" where
  "git_show tc repo revision =
     io_bind (io_read (rev_commit tc repo revision)) (\<lambda>commit.
     io_bind
       (case parents commit of
          parent # _ \<Rightarrow> diff_parent tc repo parent commit
        | [] \<Rightarrow> diff_null_tree tc repo commit)
       (\<lambda>ds.
     io_bind (io_result (show_entries tc ds [commit_lines commit])) (\<lambda>output.
     io_return (concat output))))"

text \<open>
  The test \<^verbatim>\<open>remote_obj.url.startswith('https://') and GIT_USERNAME and GIT_TOKEN\<close>
  of \<open>git_push\<close>, \<open>git_pull\<close> and \<open>git_fetch\<close>, and the handle their toolchain call
  runs on: inside the \<^verbatim>\<open>with repo.git.custom_environment(GIT_USERNAME=GIT_USERNAME,
  GIT_PASSWORD=GIT_TOKEN)\<close> block when the test holds, the plain handle otherwise.
\<close>

definition use_credentials :: "credentials \<Rightarrow> remote \<Rightarrow> bool" where
  "use_credentials creds remote_obj \<longleftrightarrow>
     startswith (remote_url remote_obj) ''https://'' \<and>
     truthy_str (GIT_USERNAME creds) \<and> truthy_str (GIT_TOKEN creds)"

definition call_handle :: "credentials \<Rightarrow> remote \<Rightarrow> repo \<Rightarrow> repo" where
  "call_handle creds remote_obj repo =
     (if use_credentials creds remote_obj then
        custom_environment
          [(''GIT_USERNAME'', GIT_USERNAME creds), (''GIT_PASSWORD'', GIT_TOKEN creds)] repo
      else repo)"

definition git_push ::
  "'w toolchain \<Rightarrow> credentials \<Rightarrow> repo \<Rightarrow> pyval \<Rightarrow> pyval \<Rightarrow> (string, 'w) io" where
  "git_push tc creds repo remote branch =
     io_bind (io_read (remote_of tc repo remote)) (\<lambda>remote_obj.
     if truthy branch then
       io_bind (remote_push tc (call_handle creds remote_obj repo) remote_obj (Some branch)) (\<lambda>_.
       io_return (''Pushed changes to '' @ py_str tc remote @ ''/'' @ py_str tc branch))
     else
       io_bind (remote_push tc (call_handle creds remote_obj repo) remote_obj None) (\<lambda>_.
       io_return (''Pushed changes to '' @ py_str tc remote)))"

text \<open>The \<^verbatim>\<open>except git.GitCommandError as e\<close> clause of \<open>git_pull\<close>.\<close>

definition pull_handler :: "exn \<Rightarrow> (string, 'w) io" where
  "pull_handler e =
     (case e of
        GitCommandError str_e \<Rightarrow>
          if contains str_e ''resolve your current index first'' then
            io_raise (ValueError
              ''Cannot pull: You have unstaged changes. Please commit or stash them first.'')
          else if contains str_e ''automatic merge failed'' then
            io_raise (ValueError
              ''Pull failed: Merge conflicts detected. Please resolve conflicts manually.'')
          else io_raise e
      | _ \<Rightarrow> io_raise e)"

definition git_pull ::
  "'w toolchain \<Rightarrow> credentials \<Rightarrow> repo \<Rightarrow> pyval \<Rightarrow> pyval \<Rightarrow> pyval \<Rightarrow> (string, 'w) io" where
  "git_pull tc creds repo remote branch rebase =
     io_bind (io_read (remote_of tc repo remote)) (\<lambda>remote_obj.
     io_bind (config_set_value tc repo ''pull'' ''rebase''
                (if truthy rebase then ''true'' else ''false'')) (\<lambda>_.
     io_try
       (if truthy branch then
          io_bind (git tc (call_handle creds remote_obj repo) ''pull'' [remote, branch]) (\<lambda>_.
          io_return (''Pulled and '' @ (if truthy rebase then ''rebased'' else ''merged'') @
                     '' changes from '' @ py_str tc remote @ ''/'' @ py_str tc branch))
        else
          io_bind (git tc (call_handle creds remote_obj repo) ''pull'' []) (\<lambda>_.
          io_return (''Pulled and '' @ (if truthy rebase then ''rebased'' else ''merged'') @
                     '' changes from '' @ py_str tc remote)))
       pull_handler))"

definition git_fetch ::
  "'w toolchain \<Rightarrow> credentials \<Rightarrow> repo \<Rightarrow> pyval \<Rightarrow> (string, 'w) io" where
  "git_fetch tc creds repo remote =
     io_bind (io_read (remote_of tc repo remote)) (\<lambda>remote_obj.
     io_bind (remote_fetch tc (call_handle creds remote_obj repo) remote_obj) (\<lambda>_.
     io_return (''Fetched changes from '' @ py_str tc remote)))"

text \<open>
  The lookups \<^verbatim>\<open>repo.heads[branch]\<close> and \<^verbatim>\<open>repo.refs[branch]\<close> of \<open>git_merge\<close>, the
  second tried when the first raises \<open>IndexError\<close> or \<open>AttributeError\<close>.
\<close>

definition find_merge_branch :: "'w toolchain \<Rightarrow> repo \<Rightarrow> pyval \<Rightarrow> (reference, 'w) io" where
  "find_merge_branch tc repo branch =
     io_try (io_read (heads_getitem tc repo branch))
       (\<lambda>e. if (case e of IndexError _ \<Rightarrow> True | AttributeError _ \<Rightarrow> True | _ \<Rightarrow> False) then
               io_try (io_read (refs_getitem tc repo branch))
                 (\<lambda>e'. case e' of
                     IndexError _ \<Rightarrow>
                       io_raise (ValueError (''Branch '' @ squote (py_str tc branch) @ '' not found''))
                   | AttributeError _ \<Rightarrow>
                       io_raise (ValueError (''Branch '' @ squote (py_str tc branch) @ '' not found''))
                   | _ \<Rightarrow> io_raise e')
             else io_raise e)"

text \<open>The \<^verbatim>\<open>except git.GitCommandError as e\<close> clause of \<open>git_merge\<close>.\<close>

definition merge_handler :: "'w toolchain \<Rightarrow> repo \<Rightarrow> exn \<Rightarrow> (string, 'w) io" where
  "merge_handler tc repo e =
     (case e of
        GitCommandError str_e \<Rightarrow>
          if contains str_e ''automatic merge failed'' then
            io_bind (git tc repo ''merge'' [PStr ''--abort'']) (\<lambda>_.
            io_raise (ValueError ''Merge failed due to conflicts. Merge aborted.''))
          else io_raise e
      | _ \<Rightarrow> io_raise e)"

definition git_merge :: "'w toolchain \<Rightarrow> repo \<Rightarrow> pyval \<Rightarrow> (string, 'w) io" where
  "git_merge tc repo branch =
     io_bind (io_read (active_branch tc repo)) (\<lambda>current.
     io_try
       (io_bind (find_merge_branch tc repo branch) (\<lambda>merge_branch.
        io_bind (git tc repo ''merge'' [PStr (ref_name merge_branch), PStr ''--no-ff'']) (\<lambda>_.
        io_return (''Merged '' @ py_str tc branch @ '' into '' @ ref_name current))))
       (merge_handler tc repo))"

definition git_stash :: "'w toolchain \<Rightarrow> repo \<Rightarrow> pyval \<Rightarrow> (string, 'w) io" where
  "git_stash tc repo msg =
     (if truthy msg then
        io_bind (git tc repo ''stash'' [PStr ''save'', msg]) (\<lambda>_.
        io_return (''Stashed changes with message: '' @ py_str tc msg))
      else
        io_bind (git tc repo ''stash'' []) (\<lambda>_.
        io_return ''Stashed changes''))"

definition git_stash_pop :: "'w toolchain \<Rightarrow> repo \<Rightarrow> pyval \<Rightarrow> (string, 'w) io" where
  "git_stash_pop tc repo index =
     io_bind (git tc repo ''stash'' [PStr ''pop'', PStr (''stash@'' @ ''{'' @ py_str tc index @ ''}'')]) (\<lambda>_.
     io_return (''Popped stash at index '' @ py_str tc index))"

definition git_get_current_branch :: "'w toolchain \<Rightarrow> repo \<Rightarrow> (string, 'w) io" where
  "git_get_current_branch tc repo =
     io_bind (io_read (active_branch tc repo)) (\<lambda>b. io_return (ref_name b))"

definition git_list_branches :: "'w toolchain \<Rightarrow> repo \<Rightarrow> (string list, 'w) io" where
  "git_list_branches tc repo =
     io_bind (io_read (heads tc repo)) (\<lambda>bs. io_return (map ref_name bs))"

definition git_delete_branch ::
  "'w toolchain \<Rightarrow> repo \<Rightarrow> pyval \<Rightarrow> pyval \<Rightarrow> (string, 'w) io" where
  "git_delete_branch tc repo branch_name force =
     io_bind
       (if truthy force then git tc repo ''branch'' [PStr ''-D'', branch_name]
        else git tc repo ''branch'' [PStr ''-d'', branch_name])
       (\<lambda>_. io_return (''Deleted branch '' @ py_str tc branch_name))"

definition git_list_remotes :: "'w toolchain \<Rightarrow> repo \<Rightarrow> (string list, 'w) io" where
  "git_list_remotes tc repo =
     io_bind (io_read (remotes tc repo)) (\<lambda>rs.
     io_return (map (\<lambda>remote. remote_name remote @ '' ('' @ remote_url remote @ '')'') rs))"

definition git_add_remote ::
  "'w toolchain \<Rightarrow> repo \<Rightarrow> pyval \<Rightarrow> pyval \<Rightarrow> (string, 'w) io" where
  "git_add_remote tc repo name url =
     io_bind (create_remote tc repo name url) (\<lambda>_.
     io_return (''Added remote '' @ py_str tc name @ '' with URL '' @ py_str tc url))"

text \<open>\<^verbatim>\<open>next(r for r in repo.remotes if r.name == name)\<close>.\<close>

definition next_remote :: "remote list \<Rightarrow> pyval \<Rightarrow> exn + remote" where
  "next_remote rs name =
     (case find (\<lambda>r. PStr (remote_name r) = name) rs of
        None \<Rightarrow> Inl StopIteration
      | Some r \<Rightarrow> Inr r)"

definition git_remove_remote :: "'w toolchain \<Rightarrow> repo \<Rightarrow> pyval \<Rightarrow> (string, 'w) io" where
  "git_remove_remote tc repo name =
     io_try
       (io_bind (io_read (remote_of tc repo name)) (\<lambda>remote.
        io_bind (io_read (remotes tc repo)) (\<lambda>rs.
        io_bind (io_result (next_remote rs name)) (\<lambda>remote_obj.
        io_bind (delete_remote tc repo remote_obj) (\<lambda>_.
        io_return (''Removed remote '' @ py_str tc name))))))
       (\<lambda>e. case e of
           ValueError _ \<Rightarrow> io_raise (ValueError (''Remote '' @ squote (py_str tc name) @ '' not found''))
         | StopIteration \<Rightarrow> io_raise (ValueError (''Remote '' @ squote (py_str tc name) @ '' not found''))
         | _ \<Rightarrow> io_raise e)"

section \<open>The tool registry\<close>

text \<open>The enumeration \<open>GitTools\<close>, in the order of its members, and their values.\<close>

datatype GitTools =
    STATUS | DIFF_UNSTAGED | DIFF_STAGED | DIFF | COMMIT | ADD | RESET | LOG
  | CREATE_BRANCH | CHECKOUT | SHOW | PUSH | PULL | FETCH | MERGE | STASH | STASH_POP
  | GET_CURRENT_BRANCH | LIST_BRANCHES | DELETE_BRANCH | LIST_REMOTES | ADD_REMOTE
  | REMOVE_REMOTE

definition all_tools :: "GitTools list" where
  "all_tools =
     [STATUS, DIFF_UNSTAGED, DIFF_STAGED, DIFF, COMMIT, ADD, RESET, LOG,
      CREATE_BRANCH, CHECKOUT, SHOW, PUSH, PULL, FETCH, MERGE, STASH, STASH_POP,
      GET_CURRENT_BRANCH, LIST_BRANCHES, DELETE_BRANCH, LIST_REMOTES, ADD_REMOTE,
      REMOVE_REMOTE]"

fun GitTools_value :: "GitTools \<Rightarrow> string" where
  "GitTools_value STATUS = ''git_status''"
| "GitTools_value DIFF_UNSTAGED = ''git_diff_unstaged''"
| "GitTools_value DIFF_STAGED = ''git_diff_staged''"
| "GitTools_value DIFF = ''git_diff''"
| "GitTools_value COMMIT = ''git_commit''"
| "GitTools_value ADD = ''git_add''"
| "GitTools_value RESET = ''git_reset''"
| "GitTools_value LOG = ''git_log''"
| "GitTools_value CREATE_BRANCH = ''git_create_branch''"
| "GitTools_value CHECKOUT = ''git_checkout''"
| "GitTools_value SHOW = ''git_show''"
| "GitTools_value PUSH = ''git_push''"
| "GitTools_value PULL = ''git_pull''"
| "GitTools_value FETCH = ''git_fetch''"
| "GitTools_value MERGE = ''git_merge''"
| "GitTools_value STASH = ''git_stash''"
| "GitTools_value STASH_POP = ''git_stash_pop''"
| "GitTools_value GET_CURRENT_BRANCH = ''git_get_current_branch''"
| "GitTools_value LIST_BRANCHES = ''git_list_branches''"
| "GitTools_value DELETE_BRANCH = ''git_delete_branch''"
| "GitTools_value LIST_REMOTES = ''git_list_remotes''"
| "GitTools_value ADD_REMOTE = ''git_add_remote''"
| "GitTools_value REMOVE_REMOTE = ''git_remove_remote''"

text \<open>
  The argument models (the \<open>BaseModel\<close> classes): every field with its annotation
  and its default, \<open>None\<close> for a field that has none and so is required.
\<close>

datatype annotation = T_str | T_int | T_bool | T_list_str | T_str_or_None

record field =
  field_name :: string
  field_type :: annotation
  field_default :: "pyval option"

definition required :: "string \<Rightarrow> annotation \<Rightarrow> field" where
  "required n t = \<lparr>field_name = n, field_type = t, field_default = None\<rparr>"

definition optional :: "string \<Rightarrow> annotation \<Rightarrow> pyval \<Rightarrow> field" where
  "optional n t d = \<lparr>field_name = n, field_type = t, field_default = Some d\<rparr>"

definition GitStatus :: "field list" where
  "GitStatus = [required ''repo_path'' T_str]"

definition GitDiffUnstaged :: "field list" where
  "GitDiffUnstaged = [required ''repo_path'' T_str]"

definition GitDiffStaged :: "field list" where
  "GitDiffStaged = [required ''repo_path'' T_str]"

definition GitDiff :: "field list" where
  "GitDiff = [required ''repo_path'' T_str, required ''target'' T_str]"

definition GitCommit :: "field list" where
  "GitCommit = [required ''repo_path'' T_str, required ''message'' T_str]"

definition GitAdd :: "field list" where
  "GitAdd = [required ''repo_path'' T_str, required ''files'' T_list_str]"

definition GitReset :: "field list" where
  "GitReset = [required ''repo_path'' T_str]"

definition GitLog :: "field list" where
  "GitLog = [required ''repo_path'' T_str, optional ''max_count'' T_int (PInt 10)]"

definition GitCreateBranch :: "field list" where
  "GitCreateBranch =
     [required ''repo_path'' T_str, required ''branch_name'' T_str,
      optional ''base_branch'' T_str_or_None PNone]"

definition GitCheckout :: "field list" where
  "GitCheckout = [required ''repo_path'' T_str, required ''branch_name'' T_str]"

definition GitShow :: "field list" where
  "GitShow = [required ''repo_path'' T_str, required ''revision'' T_str]"

definition GitPush :: "field list" where
  "GitPush =
     [required ''repo_path'' T_str, optional ''remote'' T_str (PStr ''origin''),
      optional ''branch'' T_str_or_None PNone]"

definition GitPull :: "field list" where
  "GitPull =
     [required ''repo_path'' T_str, optional ''remote'' T_str (PStr ''origin''),
      optional ''branch'' T_str_or_None PNone, optional ''rebase'' T_bool (PBool False)]"

definition GitFetch :: "field list" where
  "GitFetch = [required ''repo_path'' T_str, optional ''remote'' T_str (PStr ''origin'')]"

definition GitMerge :: "field list" where
  "GitMerge = [required ''repo_path'' T_str, required ''branch'' T_str]"

definition GitStash :: "field list" where
  "GitStash = [required ''repo_path'' T_str, optional ''message'' T_str_or_None PNone]"

definition GitStashPop :: "field list" where
  "GitStashPop = [required ''repo_path'' T_str, optional ''index'' T_int (PInt 0)]"

definition GitGetCurrentBranch :: "field list" where
  "GitGetCurrentBranch = [required ''repo_path'' T_str]"

definition GitListBranches :: "field list" where
  "GitListBranches = [required ''repo_path'' T_str]"

definition GitDeleteBranch :: "field list" where
  "GitDeleteBranch =
     [required ''repo_path'' T_str, required ''branch_name'' T_str,
      optional ''force'' T_bool (PBool False)]"

definition GitListRemotes :: "field list" where
  "GitListRemotes = [required ''repo_path'' T_str]"

definition GitAddRemote :: "field list" where
  "GitAddRemote = [required ''repo_path'' T_str, required ''name'' T_str, required ''url'' T_str]"

definition GitRemoveRemote :: "field list" where
  "GitRemoveRemote = [required ''repo_path'' T_str, required ''name'' T_str]"

text \<open>A tool descriptor: \<open>inputSchema\<close> is \<^verbatim>\<open>Model.schema()\<close>, the model's fields.\<close>

record Tool =
  tool_name :: string
  description :: string
  inputSchema :: "field list"

definition Tool :: "string \<Rightarrow> string \<Rightarrow> field list \<Rightarrow> Tool" where
  "Tool n d s = \<lparr>tool_name = n, description = d, inputSchema = s\<rparr>"

definition list_tools :: "Tool list" where
  "list_tools =
     [Tool (GitTools_value STATUS) ''Shows the working tree status'' GitStatus,
      Tool (GitTools_value DIFF_UNSTAGED)
        ''Shows changes in the working directory that are not yet staged'' GitDiffUnstaged,
      Tool (GitTools_value DIFF_STAGED) ''Shows changes that are staged for commit'' GitDiffStaged,
      Tool (GitTools_value DIFF) ''Shows differences between branches or commits'' GitDiff,
      Tool (GitTools_value COMMIT) ''Records changes to the repository'' GitCommit,
      Tool (GitTools_value ADD) ''Adds file contents to the staging area'' GitAdd,
      Tool (GitTools_value RESET) ''Unstages all staged changes'' GitReset,
      Tool (GitTools_value LOG) ''Shows the commit logs'' GitLog,
      Tool (GitTools_value CREATE_BRANCH)
        ''Creates a new branch from an optional base branch'' GitCreateBranch,
      Tool (GitTools_value CHECKOUT) ''Switches branches'' GitCheckout,
      Tool (GitTools_value SHOW) ''Shows the contents of a commit'' GitShow,
      Tool (GitTools_value PUSH) ''Push changes to remote repository'' GitPush,
      Tool (GitTools_value PULL) ''Pull changes from remote repository'' GitPull,
      Tool (GitTools_value FETCH) ''Fetch changes from remote without merging'' GitFetch,
      Tool (GitTools_value MERGE) ''Merge a branch into current branch'' GitMerge,
      Tool (GitTools_value STASH) ''Stash current changes'' GitStash,
      Tool (GitTools_value STASH_POP) ''Pop stashed changes'' GitStashPop,
      Tool (GitTools_value GET_CURRENT_BRANCH) ''Get name of current branch'' GitGetCurrentBranch,
      Tool (GitTools_value LIST_BRANCHES) ''List all branches'' GitListBranches,
      Tool (GitTools_value DELETE_BRANCH) ''Delete a branch'' GitDeleteBranch,
      Tool (GitTools_value LIST_REMOTES) ''List remote repositories'' GitListRemotes,
      Tool (GitTools_value ADD_REMOTE) ''Add a new remote repository'' GitAddRemote,
      Tool (GitTools_value REMOVE_REMOTE) ''Remove a remote repository'' GitRemoveRemote]"

section \<open>The dispatcher\<close>

text \<open>\<^verbatim>\<open>arguments[key]\<close> and \<^verbatim>\<open>arguments.get(key, default)\<close> on the argument mapping.\<close>

definition getitem :: "(string \<rightharpoonup> pyval) \<Rightarrow> string \<Rightarrow> exn + pyval" where
  "getitem arguments key =
     (case arguments key of None \<Rightarrow> Inl (KeyError key) | Some v \<Rightarrow> Inr v)"

definition get :: "(string \<rightharpoonup> pyval) \<Rightarrow> string \<Rightarrow> pyval \<Rightarrow> pyval" where
  "get arguments key dflt = (case arguments key of None \<Rightarrow> dflt | Some v \<Rightarrow> v)"

text \<open>
  \<^verbatim>\<open>Path(x)\<close> accepts a string and raises \<open>TypeError\<close> on the other values (its
  message, which names the type of the value, is cut short here); the path is
  handed to \<open>Repo\<close> as the string it was made from.
\<close>

definition Path :: "pyval \<Rightarrow> exn + string" where
  "Path x =
     (case x of
        PStr s \<Rightarrow> Inr s
      | _ \<Rightarrow> Inl (TypeError ''expected str, bytes or os.PathLike object''))"

record TextContent =
  type :: string
  text' :: string

definition TextContent :: "string \<Rightarrow> string \<Rightarrow> TextContent" where
  "TextContent t s = \<lparr>type = t, text' = s\<rparr>"

text \<open>The \<^verbatim>\<open>match name\<close> statement: the first member whose value equals \<open>name\<close>.\<close>

definition match_name :: "string \<Rightarrow> GitTools option" where
  "match_name name = find (\<lambda>t. GitTools_value t = name) all_tools"

text \<open>The body of each \<^verbatim>\<open>case\<close> of \<open>call_tool\<close>.\<close>

fun call_case ::
  "'w toolchain \<Rightarrow> credentials \<Rightarrow> repo \<Rightarrow> (string \<rightharpoonup> pyval) \<Rightarrow> GitTools \<Rightarrow>
   (TextContent list, 'w) io" where
  "call_case tc creds repo arguments STATUS =
     io_bind (git_status tc repo) (\<lambda>status.
     io_return [TextContent ''text'' (''Repository status:\<newline>'' @ status)])"
| "call_case tc creds repo arguments DIFF_UNSTAGED =
     io_bind (git_diff_unstaged tc repo) (\<lambda>diff.
     io_return [TextContent ''text'' (''Unstaged changes:\<newline>'' @ diff)])"
| "call_case tc creds repo arguments DIFF_STAGED =
     io_bind (git_diff_staged tc repo) (\<lambda>diff.
     io_return [TextContent ''text'' (''Staged changes:\<newline>'' @ diff)])"
| "call_case tc creds repo arguments DIFF =
     io_bind (io_result (getitem arguments ''target'')) (\<lambda>target.
     io_bind (git_diff tc repo target) (\<lambda>diff.
     io_return [TextContent ''text''
       (''Diff with '' @ py_str tc target @ '':\<newline>'' @ diff)]))"
| "call_case tc creds repo arguments COMMIT =
     io_bind (io_result (getitem arguments ''message'')) (\<lambda>msg.
     io_bind (git_commit tc repo msg) (\<lambda>result.
     io_return [TextContent ''text'' result]))"
| "call_case tc creds repo arguments ADD =
     io_bind (io_result (getitem arguments ''files'')) (\<lambda>files.
     io_bind (git_add tc repo files) (\<lambda>result.
     io_return [TextContent ''text'' result]))"
| "call_case tc creds repo arguments RESET =
     io_bind (git_reset tc repo) (\<lambda>result.
     io_return [TextContent ''text'' result])"
| "call_case tc creds repo arguments LOG =
     io_bind (git_log tc repo (get arguments ''max_count'' (PInt 10))) (\<lambda>log.
     io_return [TextContent ''text'' (''Commit history:\<newline>'' @ join ''\<newline>'' log)])"
| "call_case tc creds repo arguments CREATE_BRANCH =
     io_bind (io_result (getitem arguments ''branch_name'')) (\<lambda>branch_name.
     io_bind (git_create_branch tc repo branch_name (get arguments ''base_branch'' PNone))
       (\<lambda>result.
     io_return [TextContent ''text'' result]))"
| "call_case tc creds repo arguments CHECKOUT =
     io_bind (io_result (getitem arguments ''branch_name'')) (\<lambda>branch_name.
     io_bind (git_checkout tc repo branch_name) (\<lambda>result.
     io_return [TextContent ''text'' result]))"
| "call_case tc creds repo arguments SHOW =
     io_bind (io_result (getitem arguments ''revision'')) (\<lambda>revision.
     io_bind (git_show tc repo revision) (\<lambda>result.
     io_return [TextContent ''text'' result]))"
| "call_case tc creds repo arguments PUSH =
     io_bind (git_push tc creds repo (get arguments ''remote'' (PStr ''origin''))
                (get arguments ''branch'' PNone)) (\<lambda>result.
     io_return [TextContent ''text'' result])"
| "call_case tc creds repo arguments PULL =
     io_bind (git_pull tc creds repo (get arguments ''remote'' (PStr ''origin''))
                (get arguments ''branch'' PNone) (get arguments ''rebase'' (PBool False)))
       (\<lambda>result.
     io_return [TextContent ''text'' result])"
| "call_case tc creds repo arguments FETCH =
     io_bind (git_fetch tc creds repo (get arguments ''remote'' (PStr ''origin''))) (\<lambda>result.
     io_return [TextContent ''text'' result])"
| "call_case tc creds repo arguments MERGE =
     io_bind (io_result (getitem arguments ''branch'')) (\<lambda>branch.
     io_bind (git_merge tc repo branch) (\<lambda>result.
     io_return [TextContent ''text'' result]))"
| "call_case tc creds repo arguments STASH =
     io_bind (git_stash tc repo (get arguments ''message'' PNone)) (\<lambda>result.
     io_return [TextContent ''text'' result])"
| "call_case tc creds repo arguments STASH_POP =
     io_bind (git_stash_pop tc repo (get arguments ''index'' (PInt 0))) (\<lambda>result.
     io_return [TextContent ''text'' result])"
| "call_case tc creds repo arguments GET_CURRENT_BRANCH =
     io_bind (git_get_current_branch tc repo) (\<lambda>result.
     io_return [TextContent ''text'' result])"
| "call_case tc creds repo arguments LIST_BRANCHES =
     io_bind (git_list_branches tc repo) (\<lambda>branches.
     io_return [TextContent ''text'' (''Branches:\<newline>'' @ join ''\<newline>'' branches)])"
| "call_case tc creds repo arguments DELETE_BRANCH =
     io_bind (io_result (getitem arguments ''branch_name'')) (\<lambda>branch_name.
     io_bind (git_delete_branch tc repo branch_name (get arguments ''force'' (PBool False)))
       (\<lambda>result.
     io_return [TextContent ''text'' result]))"
| "call_case tc creds repo arguments LIST_REMOTES =
     io_bind (git_list_remotes tc repo) (\<lambda>remotes.
     io_return [TextContent ''text'' (''Remotes:\<newline>'' @ join ''\<newline>'' remotes)])"
| "call_case tc creds repo arguments ADD_REMOTE =
     io_bind (io_result (getitem arguments ''name'')) (\<lambda>name.
     io_bind (io_result (getitem arguments ''url'')) (\<lambda>url.
     io_bind (git_add_remote tc repo name url) (\<lambda>result.
     io_return [TextContent ''text'' result])))"
| "call_case tc creds repo arguments REMOVE_REMOTE =
     io_bind (io_result (getitem arguments ''name'')) (\<lambda>name.
     io_bind (git_remove_remote tc repo name) (\<lambda>result.
     io_return [TextContent ''text'' result]))"

definition call_tool ::
  "'w toolchain \<Rightarrow> credentials \<Rightarrow> string \<Rightarrow> (string \<rightharpoonup> pyval) \<Rightarrow>
   (TextContent list, 'w) io" where
  "call_tool tc creds name arguments =
     io_bind (io_result (getitem arguments ''repo_path'')) (\<lambda>p.
     io_bind (io_result (Path p)) (\<lambda>repo_path.
     io_bind (io_read (Repo tc repo_path)) (\<lambda>repo.
     case match_name name of
       Some tool \<Rightarrow> call_case tc creds repo arguments tool
     | None \<Rightarrow> io_raise (ValueError (''Unknown tool: '' @ name)))))"

section \<open>The repository resolver\<close>

text \<open>
  What \<open>list_repos\<close> asks of the session: whether it is a \<open>ServerSession\<close>, whether
  the client has the roots capability, and what \<^verbatim>\<open>list_roots()\<close> answers (the
  \<^verbatim>\<open>uri.path\<close> of every root, or the exception the request raises).
\<close>

record session =
  is_ServerSession :: bool
  check_client_capability :: bool
  list_roots :: "exn + string list"

text \<open>The loop \<^verbatim>\<open>for root in roots_result.roots\<close>, appending to \<open>repo_paths\<close>.\<close>

fun roots_loop :: "'w toolchain \<Rightarrow> 'w \<Rightarrow> string list \<Rightarrow> string list \<Rightarrow> exn + string list" where
  "roots_loop tc w [] repo_paths = Inr repo_paths"
| "roots_loop tc w (path # roots) repo_paths =
     (case Repo tc path w of
        Inr _ \<Rightarrow> roots_loop tc w roots (repo_paths @ [path])
      | Inl (InvalidGitRepositoryError _) \<Rightarrow> roots_loop tc w roots repo_paths
      | Inl e \<Rightarrow> Inl e)"

definition by_roots :: "'w toolchain \<Rightarrow> session \<Rightarrow> 'w \<Rightarrow> exn + string list" where
  "by_roots tc s w =
     (if \<not> is_ServerSession s then
        Inl (TypeError ''server.request_context.session must be a ServerSession'')
      else if \<not> check_client_capability s then Inr []
      else case list_roots s of
             Inl e \<Rightarrow> Inl e
           | Inr roots \<Rightarrow> roots_loop tc w roots [])"

definition by_commandline :: "string option \<Rightarrow> string list" where
  "by_commandline repository = (case repository of Some p \<Rightarrow> [p] | None \<Rightarrow> [])"

definition list_repos ::
  "'w toolchain \<Rightarrow> session \<Rightarrow> string option \<Rightarrow> 'w \<Rightarrow> exn + string list" where
  "list_repos tc s repository w =
     (let cmd_repos = by_commandline repository in
      case by_roots tc s w of
        Inl e \<Rightarrow> Inl e
      | Inr root_repos \<Rightarrow> Inr (root_repos @ cmd_repos))"

section \<open>A small repository to run the operations on\<close>

text \<open>
  One instance of the toolchain, used to evaluate the operations on concrete
  inputs. Its state holds the local branches and the remote-tracking references
  with the commits they point at, the checked-out branch, the head of a merge in
  progress (\<^verbatim>\<open>MERGE_HEAD\<close>), the value of \<^verbatim>\<open>pull.rebase\<close> in the configuration, and
  the \<^verbatim>\<open>GIT_USERNAME\<close> and \<^verbatim>\<open>GIT_PASSWORD\<close> the last network process was started
  with. The project at \<^verbatim>\<open>/srv/project\<close> has the branches \<open>main\<close> and \<open>feature\<close>,
  whose changes conflict; \<^verbatim>\<open>/srv/notes\<close> is a directory that is no repository.
\<close>

record sim =
  branches :: "(string \<times> string) list"
  remote_branches :: "(string \<times> string) list"
  checked_out :: "string option"
  merge_head :: "string option"
  pull_rebase :: "string option"
  network_login :: "string option \<times> string option"

definition project :: sim where
  "project =
     \<lparr>branches = [(''main'', ''c2''), (''feature'', ''c3'')],
      remote_branches = [(''origin/main'', ''c4'')],
      checked_out = Some ''main'',
      merge_head = None,
      pull_rebase = None,
      network_login = (None, None)\<rparr>"

definition sim_Repo :: "string \<Rightarrow> sim \<Rightarrow> exn + repo" where
  "sim_Repo path w =
     (if path = ''/srv/project'' then Inr \<lparr>working_dir = path, environment = Map.empty\<rparr>
      else if path = ''/srv/notes'' then Inl (InvalidGitRepositoryError path)
      else Inl (NoSuchPathError path))"

text \<open>
  What git prints when a merge stops on a conflict, as \<^verbatim>\<open>str(e)\<close> of the
  \<open>GitCommandError\<close> shows it: the command line and the process output.
\<close>

definition conflict_output :: "string \<Rightarrow> string" where
  "conflict_output cmdline =
     ''Cmd('git') failed due to: exit code(1)\<newline>  cmdline: '' @ cmdline @
     ''\<newline>  stdout: '' @
     squote (''Auto-merging a.txt\<newline>CONFLICT (content): Merge conflict in a.txt\<newline>'' @
             ''Automatic merge failed; fix conflicts and then commit the result.'')"

text \<open>
  The git processes of the instance: \<^verbatim>\<open>status\<close>; \<^verbatim>\<open>merge <branch> --no-ff\<close>, which
  stops on a conflict for \<open>feature\<close> and for \<open>origin/main\<close> and leaves the merge in
  progress; \<^verbatim>\<open>merge --abort\<close>, which ends a merge in progress; \<^verbatim>\<open>pull\<close>, which
  fetches and then merges \<open>origin/main\<close>.
\<close>

definition sim_process :: "repo \<Rightarrow> string \<Rightarrow> pyval list \<Rightarrow> (pytext, sim) io" where
  "sim_process repo name args w =
     (if name = ''status'' then (Inr (PyStr ''On branch main''), w)
      else if name = ''merge'' \<and> args = [PStr ''--abort''] then
        (if merge_head w = None then
           (Inl (GitCommandError ''fatal: There is no merge to abort (MERGE_HEAD missing).''), w)
         else (Inr (PyStr []), w\<lparr>merge_head := None\<rparr>))
      else if name = ''merge'' \<and> args = [PStr ''feature'', PStr ''--no-ff''] then
        (Inl (GitCommandError (conflict_output ''git merge feature --no-ff'')),
         w\<lparr>merge_head := Some ''c3''\<rparr>)
      else if name = ''merge'' \<and> args = [PStr ''origin/main'', PStr ''--no-ff''] then
        (Inl (GitCommandError (conflict_output ''git merge origin/main --no-ff'')),
         w\<lparr>merge_head := Some ''c4''\<rparr>)
      else if name = ''pull'' then
        (Inl (GitCommandError (conflict_output ''git pull'')),
         w\<lparr>merge_head := Some ''c4'',
           network_login :=
             (environment repo ''GIT_USERNAME'', environment repo ''GIT_PASSWORD'')\<rparr>)
      else (Inl (GitCommandError (''git: '' @ name @ '' is not a git command'')), w))"

definition sim_lookup :: "(string \<times> string) list \<Rightarrow> pyval \<Rightarrow> exn + reference" where
  "sim_lookup table x =
     (case x of
        PStr n \<Rightarrow>
          (if n \<in> set (map fst table) then Inr (Reference n)
           else Inl (IndexError (''No item found with id '' @ squote n)))
      | _ \<Rightarrow> Inl (TypeError ''attribute name must be string''))"

definition sim_active_branch :: "sim \<Rightarrow> exn + reference" where
  "sim_active_branch w =
     (case checked_out w of
        Some n \<Rightarrow> Inr (Reference n)
      | None \<Rightarrow> Inl (TypeError ''HEAD is a detached symbolic reference''))"

text \<open>\<^verbatim>\<open>create_head\<close>: a new branch at the commit of \<open>base\<close>; nothing is checked out.\<close>

definition sim_create_head :: "pyval \<Rightarrow> reference \<Rightarrow> (reference, sim) io" where
  "sim_create_head branch_name base w =
     (case (branch_name, map_of (branches w @ remote_branches w) (ref_name base)) of
        (PStr n, Some c) \<Rightarrow>
          (if n \<in> set (map fst (branches w)) then
             (Inl (OtherError (''Reference at '' @ squote n @ '' does already exist'')), w)
           else (Inr (Reference n), w\<lparr>branches := branches w @ [(n, c)]\<rparr>))
      | _ \<Rightarrow> (Inl (OtherError ''create_head''), w))"

definition sim_commits :: "commit list" where
  "sim_commits =
     [\<lparr>hexsha = ''c2'', author = ''Ada'', authored_datetime = ''2024-05-02 10:00:00+00:00'',
       message = ''second'', parents = [''c1'']\<rparr>,
      \<lparr>hexsha = ''c1'', author = ''Ada'', authored_datetime = ''2024-05-01 09:00:00+00:00'',
       message = ''first'', parents = []\<rparr>]"

definition sim_rev_commit :: "pyval \<Rightarrow> exn + commit" where
  "sim_rev_commit revision =
     (case find (\<lambda>c. PStr (hexsha c) = revision) sim_commits of
        Some c \<Rightarrow> Inr c
      | None \<Rightarrow> Inl (OtherError ''BadName''))"

definition sim_remote_of :: "pyval \<Rightarrow> exn + remote" where
  "sim_remote_of x =
     (if x = PStr ''origin'' then
        Inr \<lparr>remote_name = ''origin'', remote_url = ''https://example.com/project.git''\<rparr>
      else if x = PStr ''backup'' then
        Inr \<lparr>remote_name = ''backup'', remote_url = ''ssh://git@example.com/project.git''\<rparr>
      else Inl (ValueError ''Remote did not exist''))"

definition sim_network :: "repo \<Rightarrow> (unit, sim) io" where
  "sim_network repo w =
     (Inr (),
      w\<lparr>network_login :=
          (environment repo ''GIT_USERNAME'', environment repo ''GIT_PASSWORD'')\<rparr>)"

definition sim_toolchain :: "sim toolchain" where
  "sim_toolchain =
     \<lparr>Repo = sim_Repo,
      git = sim_process,
      index_commit = (\<lambda>repo msg w. (Inr (hd sim_commits), w)),
      index_add = (\<lambda>repo files w. (Inr (), w)),
      index_reset = (\<lambda>repo w. (Inr (), w)),
      iter_commits = (\<lambda>repo max_count w. (Inr sim_commits, w)),
      heads = (\<lambda>repo w. Inr (map (\<lambda>(n, c). Reference n) (branches w))),
      heads_getitem = (\<lambda>repo x w. sim_lookup (branches w) x),
      refs_getitem = (\<lambda>repo x w. sim_lookup (branches w @ remote_branches w) x),
      active_branch = (\<lambda>repo w. sim_active_branch w),
      create_head = (\<lambda>repo. sim_create_head),
      rev_commit = (\<lambda>repo revision w. sim_rev_commit revision),
      diff_parent = (\<lambda>repo p c w.
        (Inr [\<lparr>a_path = Some (PyStr ''a.txt''), b_path = Some (PyStr ''a.txt''),
               diff = PyBytes ''@@ -1 +1 @@\<newline>-one\<newline>+two\<newline>''\<rparr>], w)),
      diff_null_tree = (\<lambda>repo c w.
        (Inr [\<lparr>a_path = None, b_path = Some (PyStr ''a.txt''),
               diff = PyBytes ''@@ -0,0 +1 @@\<newline>+one\<newline>''\<rparr>], w)),
      remote_of = (\<lambda>repo x w. sim_remote_of x),
      remotes = (\<lambda>repo w. Inr []),
      remote_push = (\<lambda>repo remote_obj refspec. sim_network repo),
      remote_fetch = (\<lambda>repo remote_obj. sim_network repo),
      config_set_value = (\<lambda>repo sec opt v w. (Inr (), w\<lparr>pull_rebase := Some v\<rparr>)),
      create_remote = (\<lambda>repo name url w. (Inr (), w)),
      delete_remote = (\<lambda>repo remote_obj w. (Inr (), w)),
      utf8_decode = Inr,
      py_repr = squote\<rparr>"

text \<open>
  The same project with a root commit that adds a file in Latin-1: the patch holds
  the byte \<^verbatim>\<open>0xFF\<close>, which no UTF-8 text holds, and \<^verbatim>\<open>decode('utf-8')\<close> refuses it.
\<close>

definition strict_utf8_decode :: "string \<Rightarrow> exn + string" where
  "strict_utf8_decode b =
     (if CHR 0xFF \<in> set b then
        Inl (UnicodeDecodeError ''utf-8 codec cannot decode byte 0xff: invalid start byte'')
      else Inr b)"

definition latin1_toolchain :: "sim toolchain" where
  "latin1_toolchain =
     sim_toolchain
       \<lparr>diff_null_tree := (\<lambda>repo c w.
          (Inr [\<lparr>a_path = None, b_path = Some (PyStr ''a.txt''),
                 diff = PyBytes (''@@ -0,0 +1 @@\<newline>+'' @ [CHR 0xFF] @ ''\<newline>'')\<rparr>], w)),
        utf8_decode := strict_utf8_decode\<rparr>"

definition project_repo :: repo where
  "project_repo = \<lparr>working_dir = ''/srv/project'', environment = Map.empty\<rparr>"

text \<open>The process-wide credentials: none set, and both set.\<close>

definition no_login :: credentials where
  "no_login = \<lparr>GIT_USERNAME = None, GIT_TOKEN = None\<rparr>"

definition ada_login :: credentials where
  "ada_login = \<lparr>GIT_USERNAME = Some ''ada'', GIT_TOKEN = Some ''t0ken''\<rparr>"

text \<open>A session of a client that has the roots capability, by what \<^verbatim>\<open>list_roots()\<close> answers.\<close>

definition roots_session :: "exn + string list \<Rightarrow> session" where
  "roots_session answer =
     \<lparr>is_ServerSession = True, check_client_capability = True, list_roots = answer\<rparr>"

subsection \<open>A toolchain that records what it is asked\<close>

text \<open>
  To see which arguments reach the library, a second instance of the toolchain
  keeps, as its world, the list of the state-changing calls made so far, each
  with the values it was passed. Every call succeeds; a look-up answers with a
  fixed object whatever it is asked for.
\<close>

type_synonym trace = "(string \<times> pyval list) list"

definition trace_toolchain :: "trace toolchain" where
  "trace_toolchain =
     \<lparr>Repo = (\<lambda>path w. Inr \<lparr>working_dir = path, environment = Map.empty\<rparr>),
      git = (\<lambda>repo name args w. (Inr (PyStr []), w @ [(name, args)])),
      index_commit = (\<lambda>repo msg w.
        (Inr \<lparr>hexsha = ''0'', author = [], authored_datetime = [], message = [], parents = []\<rparr>,
         w @ [(''index.commit'', [msg])])),
      index_add = (\<lambda>repo files w. (Inr (), w @ [(''index.add'', [files])])),
      index_reset = (\<lambda>repo w. (Inr (), w @ [(''index.reset'', [])])),
      iter_commits = (\<lambda>repo max_count w. (Inr [], w @ [(''iter_commits'', [max_count])])),
      heads = (\<lambda>repo w. Inr []),
      heads_getitem = (\<lambda>repo x w. Inr (Reference ''found'')),
      refs_getitem = (\<lambda>repo x w. Inr (Reference ''found'')),
      active_branch = (\<lambda>repo w. Inr (Reference ''current'')),
      create_head = (\<lambda>repo name base w.
        (Inr (Reference ''new''), w @ [(''create_head'', [name, PStr (ref_name base)])])),
      rev_commit = (\<lambda>repo revision w.
        Inr \<lparr>hexsha = ''0'', author = [], authored_datetime = [], message = [], parents = []\<rparr>),
      diff_parent = (\<lambda>repo p c w. (Inr [], w)),
      diff_null_tree = (\<lambda>repo c w. (Inr [], w)),
      remote_of = (\<lambda>repo x w. Inr \<lparr>remote_name = ''found'', remote_url = []\<rparr>),
      remotes = (\<lambda>repo w. Inr []),
      remote_push = (\<lambda>repo remote_obj refspec w.
        (Inr (), w @ [(''push'', case refspec of None \<Rightarrow> [] | Some b \<Rightarrow> [b])])),
      remote_fetch = (\<lambda>repo remote_obj w. (Inr (), w @ [(''fetch'', [])])),
      config_set_value = (\<lambda>repo sec opt v w.
        (Inr (), w @ [(''config'', [PStr sec, PStr opt, PStr v])])),
      create_remote = (\<lambda>repo name url w. (Inr (), w @ [(''create_remote'', [name, url])])),
      delete_remote = (\<lambda>repo remote_obj w. (Inr (), w @ [(''delete_remote'', [])])),
      utf8_decode = Inr,
      py_repr = squote\<rparr>"

text \<open>An argument mapping that binds every key some tool reads.\<close>

definition sample :: "string \<rightharpoonup> pyval" where
  "sample =
     [''repo_path'' \<mapsto> PStr ''/srv/project'', ''target'' \<mapsto> PStr ''main'',
      ''message'' \<mapsto> PStr ''wip'', ''files'' \<mapsto> PStrList [''a.txt''],
      ''max_count'' \<mapsto> PInt 5, ''branch_name'' \<mapsto> PStr ''topic'',
      ''base_branch'' \<mapsto> PStr ''main'', ''revision'' \<mapsto> PStr ''c1'',
      ''remote'' \<mapsto> PStr ''backup'', ''branch'' \<mapsto> PStr ''main'',
      ''rebase'' \<mapsto> PBool True, ''index'' \<mapsto> PInt 1, ''force'' \<mapsto> PBool True,
      ''name'' \<mapsto> PStr ''backup'', ''url'' \<mapsto> PStr ''ssh://git@example.com/project.git'']"

section \<open>What the dispatcher calls, labels and reads\<close>

text \<open>
  The operation each \<^verbatim>\<open>case\<close> of \<open>call_tool\<close> calls, with the arguments it is given
  (the right-hand side of \<^verbatim>\<open>result = ...\<close>, \<^verbatim>\<open>status = ...\<close> and so on): its return
  value is a string or a list of strings.
\<close>

datatype opresult = Single string | Several "string list"

fun operation ::
  "'w toolchain \<Rightarrow> credentials \<Rightarrow> repo \<Rightarrow> (string \<rightharpoonup> pyval) \<Rightarrow> GitTools \<Rightarrow>
   (opresult, 'w) io" where
  "operation tc creds repo arguments STATUS =
     io_bind (git_status tc repo) (\<lambda>r. io_return (Single r))"
| "operation tc creds repo arguments DIFF_UNSTAGED =
     io_bind (git_diff_unstaged tc repo) (\<lambda>r. io_return (Single r))"
| "operation tc creds repo arguments DIFF_STAGED =
     io_bind (git_diff_staged tc repo) (\<lambda>r. io_return (Single r))"
| "operation tc creds repo arguments DIFF =
     io_bind (io_result (getitem arguments ''target'')) (\<lambda>target.
     io_bind (git_diff tc repo target) (\<lambda>r. io_return (Single r)))"
| "operation tc creds repo arguments COMMIT =
     io_bind (io_result (getitem arguments ''message'')) (\<lambda>msg.
     io_bind (git_commit tc repo msg) (\<lambda>r. io_return (Single r)))"
| "operation tc creds repo arguments ADD =
     io_bind (io_result (getitem arguments ''files'')) (\<lambda>files.
     io_bind (git_add tc repo files) (\<lambda>r. io_return (Single r)))"
| "operation tc creds repo arguments RESET =
     io_bind (git_reset tc repo) (\<lambda>r. io_return (Single r))"
| "operation tc creds repo arguments LOG =
     io_bind (git_log tc repo (get arguments ''max_count'' (PInt 10)))
       (\<lambda>r. io_return (Several r))"
| "operation tc creds repo arguments CREATE_BRANCH =
     io_bind (io_result (getitem arguments ''branch_name'')) (\<lambda>branch_name.
     io_bind (git_create_branch tc repo branch_name (get arguments ''base_branch'' PNone))
       (\<lambda>r. io_return (Single r)))"
| "operation tc creds repo arguments CHECKOUT =
     io_bind (io_result (getitem arguments ''branch_name'')) (\<lambda>branch_name.
     io_bind (git_checkout tc repo branch_name) (\<lambda>r. io_return (Single r)))"
| "operation tc creds repo arguments SHOW =
     io_bind (io_result (getitem arguments ''revision'')) (\<lambda>revision.
     io_bind (git_show tc repo revision) (\<lambda>r. io_return (Single r)))"
| "operation tc creds repo arguments PUSH =
     io_bind (git_push tc creds repo (get arguments ''remote'' (PStr ''origin''))
                (get arguments ''branch'' PNone)) (\<lambda>r. io_return (Single r))"
| "operation tc creds repo arguments PULL =
     io_bind (git_pull tc creds repo (get arguments ''remote'' (PStr ''origin''))
                (get arguments ''branch'' PNone) (get arguments ''rebase'' (PBool False)))
       (\<lambda>r. io_return (Single r))"
| "operation tc creds repo arguments FETCH =
     io_bind (git_fetch tc creds repo (get arguments ''remote'' (PStr ''origin'')))
       (\<lambda>r. io_return (Single r))"
| "operation tc creds repo arguments MERGE =
     io_bind (io_result (getitem arguments ''branch'')) (\<lambda>branch.
     io_bind (git_merge tc repo branch) (\<lambda>r. io_return (Single r)))"
| "operation tc creds repo arguments STASH =
     io_bind (git_stash tc repo (get arguments ''message'' PNone)) (\<lambda>r. io_return (Single r))"
| "operation tc creds repo arguments STASH_POP =
     io_bind (git_stash_pop tc repo (get arguments ''index'' (PInt 0)))
       (\<lambda>r. io_return (Single r))"
| "operation tc creds repo arguments GET_CURRENT_BRANCH =
     io_bind (git_get_current_branch tc repo) (\<lambda>r. io_return (Single r))"
| "operation tc creds repo arguments LIST_BRANCHES =
     io_bind (git_list_branches tc repo) (\<lambda>r. io_return (Several r))"
| "operation tc creds repo arguments DELETE_BRANCH =
     io_bind (io_result (getitem arguments ''branch_name'')) (\<lambda>branch_name.
     io_bind (git_delete_branch tc repo branch_name (get arguments ''force'' (PBool False)))
       (\<lambda>r. io_return (Single r)))"
| "operation tc creds repo arguments LIST_REMOTES =
     io_bind (git_list_remotes tc repo) (\<lambda>r. io_return (Several r))"
| "operation tc creds repo arguments ADD_REMOTE =
     io_bind (io_result (getitem arguments ''name'')) (\<lambda>name.
     io_bind (io_result (getitem arguments ''url'')) (\<lambda>url.
     io_bind (git_add_remote tc repo name url) (\<lambda>r. io_return (Single r))))"
| "operation tc creds repo arguments REMOVE_REMOTE =
     io_bind (io_result (getitem arguments ''name'')) (\<lambda>name.
     io_bind (git_remove_remote tc repo name) (\<lambda>r. io_return (Single r)))"

text \<open>
  What each \<^verbatim>\<open>case\<close> writes in front of the return value in \<^verbatim>\<open>text=...\<close>:
  seven cases write a label, the other sixteen pass the return value as it is.
\<close>

fun label :: "'w toolchain \<Rightarrow> (string \<rightharpoonup> pyval) \<Rightarrow> GitTools \<Rightarrow> string" where
  "label tc arguments STATUS = ''Repository status:\<newline>''"
| "label tc arguments DIFF_UNSTAGED = ''Unstaged changes:\<newline>''"
| "label tc arguments DIFF_STAGED = ''Staged changes:\<newline>''"
| "label tc arguments DIFF =
     ''Diff with '' @ py_str tc (get arguments ''target'' PNone) @ '':\<newline>''"
| "label tc arguments LOG = ''Commit history:\<newline>''"
| "label tc arguments LIST_BRANCHES = ''Branches:\<newline>''"
| "label tc arguments LIST_REMOTES = ''Remotes:\<newline>''"
| "label tc arguments _ = []"

text \<open>A list of strings goes into the text as \<^verbatim>\<open>"\n".join(...)\<close>.\<close>

fun rendered :: "opresult \<Rightarrow> string" where
  "rendered (Single s) = s"
| "rendered (Several xs) = join ''\<newline>'' xs"

text \<open>
  The keys each \<^verbatim>\<open>case\<close> reads from the argument mapping, after the \<open>repo_path\<close>
  every invocation reads first: \<^verbatim>\<open>arguments[key]\<close> is a key without default,
  \<^verbatim>\<open>arguments.get(key, d)\<close> a key with the default \<open>d\<close> (\<open>None\<close> when not given).
\<close>

fun consumed :: "GitTools \<Rightarrow> (string \<times> pyval option) list" where
  "consumed STATUS = [(''repo_path'', None)]"
| "consumed DIFF_UNSTAGED = [(''repo_path'', None)]"
| "consumed DIFF_STAGED = [(''repo_path'', None)]"
| "consumed DIFF = [(''repo_path'', None), (''target'', None)]"
| "consumed COMMIT = [(''repo_path'', None), (''message'', None)]"
| "consumed ADD = [(''repo_path'', None), (''files'', None)]"
| "consumed RESET = [(''repo_path'', None)]"
| "consumed LOG = [(''repo_path'', None), (''max_count'', Some (PInt 10))]"
| "consumed CREATE_BRANCH =
     [(''repo_path'', None), (''branch_name'', None), (''base_branch'', Some PNone)]"
| "consumed CHECKOUT = [(''repo_path'', None), (''branch_name'', None)]"
| "consumed SHOW = [(''repo_path'', None), (''revision'', None)]"
| "consumed PUSH =
     [(''repo_path'', None), (''remote'', Some (PStr ''origin'')), (''branch'', Some PNone)]"
| "consumed PULL =
     [(''repo_path'', None), (''remote'', Some (PStr ''origin'')), (''branch'', Some PNone),
      (''rebase'', Some (PBool False))]"
| "consumed FETCH = [(''repo_path'', None), (''remote'', Some (PStr ''origin''))]"
| "consumed MERGE = [(''repo_path'', None), (''branch'', None)]"
| "consumed STASH = [(''repo_path'', None), (''message'', Some PNone)]"
| "consumed STASH_POP = [(''repo_path'', None), (''index'', Some (PInt 0))]"
| "consumed GET_CURRENT_BRANCH = [(''repo_path'', None)]"
| "consumed LIST_BRANCHES = [(''repo_path'', None)]"
| "consumed DELETE_BRANCH =
     [(''repo_path'', None), (''branch_name'', None), (''force'', Some (PBool False))]"
| "consumed LIST_REMOTES = [(''repo_path'', None)]"
| "consumed ADD_REMOTE = [(''repo_path'', None), (''name'', None), (''url'', None)]"
| "consumed REMOVE_REMOTE = [(''repo_path'', None), (''name'', None)]"

text \<open>
  The argument mapping as a handler sees it: the keys it reads, a key with a
  default bound to the default when the mapping leaves it out, and nothing else.
\<close>

definition bound_arguments :: "GitTools \<Rightarrow> (string \<rightharpoonup> pyval) \<Rightarrow> (string \<rightharpoonup> pyval)" where
  "bound_arguments t arguments =
     (\<lambda>key. case map_of (consumed t) key of
        None \<Rightarrow> None
      | Some None \<Rightarrow> arguments key
      | Some (Some d) \<Rightarrow> Some (get arguments key d))"

text \<open>
  The first key without default, after \<open>repo_path\<close>, that the argument mapping
  leaves out, in the order the \<^verbatim>\<open>case\<close> reads them.
\<close>

definition first_missing :: "GitTools \<Rightarrow> (string \<rightharpoonup> pyval) \<Rightarrow> string option" where
  "first_missing t arguments =
     map_option fst
       (find (\<lambda>(key, d). d = None \<and> key \<noteq> ''repo_path'' \<and> arguments key = None) (consumed t))"

text \<open>The name and default of a schema field, to compare with \<open>consumed\<close>.\<close>

definition field_signature :: "field \<Rightarrow> string \<times> pyval option" where
  "field_signature f = (field_name f, field_default f)"

text \<open>
  The transports of a remote URL that go over a network, in the words of the
  specification (``a network (non-local) transport''): the URL schemes git
  documents for them.
\<close>

definition spec_network_transport :: "string \<Rightarrow> bool" where
  "spec_network_transport url \<longleftrightarrow>
     list_ex (startswith url)
       [''ssh://'', ''git://'', ''http://'', ''https://'', ''ftp://'', ''ftps://'']"

text \<open>Whether a path opens as a repository, and whether opening it says it is none.\<close>

definition is_repository :: "'w toolchain \<Rightarrow> 'w \<Rightarrow> string \<Rightarrow> bool" where
  "is_repository tc w path = (case Repo tc path w of Inr _ \<Rightarrow> True | Inl _ \<Rightarrow> False)"

definition not_a_repository :: "'w toolchain \<Rightarrow> 'w \<Rightarrow> string \<Rightarrow> bool" where
  "not_a_repository tc w path =
     (case Repo tc path w of Inl (InvalidGitRepositoryError _) \<Rightarrow> True | _ \<Rightarrow> False)"

text \<open>
  What \<open>git_show\<close> appends for one diff entry whose paths and patch are text or
  decode: its header and its patch.
\<close>

definition entry_text :: "'w toolchain \<Rightarrow> Diff \<Rightarrow> string" where
  "entry_text tc d =
     ''\<newline>--- '' @ projr (path_text tc (a_path d)) @
     ''\<newline>+++ '' @ projr (path_text tc (b_path d)) @ ''\<newline>'' @
     projr (as_text tc (diff d))"

text \<open>
  The first error of the three conversions \<open>git_show\<close> makes for one entry
  (\<open>a_path\<close>, \<open>b_path\<close>, then the patch), and the first such error over the entries
  of a diff in their order.
\<close>

definition decode_error :: "'w toolchain \<Rightarrow> Diff \<Rightarrow> exn option" where
  "decode_error tc d =
     (case path_text tc (a_path d) of
        Inl e \<Rightarrow> Some e
      | Inr _ \<Rightarrow>
          (case path_text tc (b_path d) of
             Inl e \<Rightarrow> Some e
           | Inr _ \<Rightarrow> (case as_text tc (diff d) of Inl e \<Rightarrow> Some e | Inr _ \<Rightarrow> None)))"

fun first_decode_error :: "'w toolchain \<Rightarrow> Diff list \<Rightarrow> exn option" where
  "first_decode_error tc [] = None"
| "first_decode_error tc (d # ds) =
     (case decode_error tc d of Some e \<Rightarrow> Some e | None \<Rightarrow> first_decode_error tc ds)"

text \<open>
  What it is for a tool's handler to use a key of the argument mapping, stated of
  \<open>call_tool\<close> itself on a toolchain \<open>tc\<close>. The handler \<^emph>\<open>reads\<close> a key when some
  call changes its outcome (the result or the final world) with the binding of
  that key alone.
\<close>

definition reads :: "'w toolchain \<Rightarrow> credentials \<Rightarrow> GitTools \<Rightarrow> string \<Rightarrow> bool" where
  "reads tc creds t key \<longleftrightarrow>
     (\<exists>arguments v w.
        call_tool tc creds (GitTools_value t) (arguments(key := v)) w \<noteq>
        call_tool tc creds (GitTools_value t) arguments w)"

text \<open>A key is \<^emph>\<open>required\<close> when every call that leaves it out raises.\<close>

definition required_by :: "'w toolchain \<Rightarrow> credentials \<Rightarrow> GitTools \<Rightarrow> string \<Rightarrow> bool" where
  "required_by tc creds t key \<longleftrightarrow>
     (\<forall>arguments w.
        arguments key = None \<longrightarrow>
        isl (fst (call_tool tc creds (GitTools_value t) arguments w)))"

text \<open>
  A key \<^emph>\<open>defaults to\<close> \<open>d\<close> when leaving it out is the same call as binding it
  to \<open>d\<close>.
\<close>

definition defaults_to ::
  "'w toolchain \<Rightarrow> credentials \<Rightarrow> GitTools \<Rightarrow> string \<Rightarrow> pyval \<Rightarrow> bool" where
  "defaults_to tc creds t key d \<longleftrightarrow>
     (\<forall>arguments w.
        arguments key = None \<longrightarrow>
        call_tool tc creds (GitTools_value t) arguments w =
        call_tool tc creds (GitTools_value t) (arguments(key \<mapsto> d)) w)"

text \<open>The schema \<open>list_tools\<close> publishes under the name of a tool.\<close>

definition schema_of :: "GitTools \<Rightarrow> field list" where
  "schema_of t =
     (case find (\<lambda>d. tool_name d = GitTools_value t) list_tools of
        Some d \<Rightarrow> inputSchema d
      | None \<Rightarrow> [])"

section \<open>Facts about the helpers\<close>

lemmas io_defs = io_return_def io_raise_def io_result_def io_read_def io_bind_def io_try_def

lemma match_name_value: "match_name (GitTools_value t) = Some t"
  by (cases t) (simp_all add: match_name_def all_tools_def)

lemma match_name_Some: "match_name name = Some t \<Longrightarrow> name = GitTools_value t"
  by (auto simp: match_name_def dest: find_Some_iff[THEN iffD1])

lemma tool_names: "map tool_name list_tools = map GitTools_value all_tools"
  by (simp add: list_tools_def all_tools_def Tool_def)

lemma match_name_None: "match_name name = None \<longleftrightarrow> name \<notin> set (map tool_name list_tools)"
  unfolding tool_names by (auto simp: match_name_def find_None_iff)

lemma all_tools_complete: "set all_tools = UNIV"
proof -
  have "t \<in> set all_tools" for t
    by (cases t) (simp_all add: all_tools_def)
  then show ?thesis by auto
qed

lemma names_distinct: "distinct (map tool_name list_tools)"
  by (simp add: list_tools_def Tool_def)

text \<open>Every \<^verbatim>\<open>case\<close> returns a list of one \<open>TextContent\<close>.\<close>

lemma call_case_singleton:
  "call_case tc creds repo arguments t w = (Inr result, w') \<Longrightarrow>
   \<exists>s. result = [TextContent ''text'' s]"
  by (cases t) (auto simp: io_defs split: prod.splits sum.splits)

text \<open>Every \<^verbatim>\<open>case\<close> is its operation, then its label in front of the return value.\<close>

lemma call_case_operation:
  "call_case tc creds repo arguments t =
     io_bind (operation tc creds repo arguments t)
       (\<lambda>r. io_return [TextContent ''text'' (label tc arguments t @ rendered r)])"
  by (cases t)
    (auto simp: io_defs getitem_def get_def fun_eq_iff split: prod.splits sum.splits option.splits)

text \<open>A \<^verbatim>\<open>case\<close> reads the keys of \<open>consumed\<close> and no other.\<close>

lemma call_case_bound:
  "call_case tc creds repo (bound_arguments t arguments) t = call_case tc creds repo arguments t"
  by (cases t) (simp_all add: bound_arguments_def getitem_def get_def split: option.splits)

text \<open>A \<^verbatim>\<open>case\<close> fails with \<open>KeyError\<close> on the first key without default that is absent.\<close>

lemma call_case_required:
  "first_missing t arguments = Some key \<Longrightarrow>
   call_case tc creds repo arguments t w = (Inl (KeyError key), w)"
  by (cases t)
    (simp_all add: first_missing_def io_defs getitem_def split: option.splits if_splits)

lemma startswith_prefix: "startswith s p \<longleftrightarrow> prefix p s"
  by (induction s p rule: startswith.induct) auto

lemma contains_sublist: "contains s sub \<longleftrightarrow> sublist sub s"
proof (induction s)
  case Nil
  then show ?case by simp
next
  case (Cons c s)
  then show ?case
    by (cases sub) (auto simp: startswith_prefix sublist_Cons_right)
qed

text \<open>The loop over the roots keeps the paths that open, in their order.\<close>

lemma roots_loop_filter:
  "\<forall>p\<in>set roots. is_repository tc w p \<or> not_a_repository tc w p \<Longrightarrow>
   roots_loop tc w roots repo_paths = Inr (repo_paths @ filter (is_repository tc w) roots)"
proof (induction roots arbitrary: repo_paths)
  case Nil
  then show ?case by simp
next
  case (Cons p roots)
  then show ?case
    by (auto simp: is_repository_def not_a_repository_def split: sum.splits exn.splits)
qed

text \<open>The loop of \<open>git_show\<close>: it stops at the first conversion that fails.\<close>

lemma show_entries_error:
  "first_decode_error tc ds = Some e \<Longrightarrow> show_entries tc ds out = Inl e"
proof (induction ds arbitrary: out)
  case Nil
  then show ?case by simp
next
  case (Cons d ds)
  show ?case
  proof (cases "decode_error tc d")
    case (Some e')
    with Cons.prems show ?thesis
      by (auto simp: decode_error_def split: sum.splits)
  next
    case None
    then obtain a b s where a: "path_text tc (a_path d) = Inr a"
      and b: "path_text tc (b_path d) = Inr b" and s: "as_text tc (diff d) = Inr s"
      by (auto simp: decode_error_def split: sum.splits)
    from Cons.prems None have "first_decode_error tc ds = Some e" by simp
    from Cons.IH[OF this] show ?thesis
      by (simp add: a b s)
  qed
qed

lemma show_entries_text:
  "first_decode_error tc ds = None \<Longrightarrow>
   \<exists>res. show_entries tc ds out = Inr res \<and>
     concat res = concat out @ concat (map (entry_text tc) ds)"
proof (induction ds arbitrary: out)
  case Nil
  then show ?case by simp
next
  case (Cons d ds)
  from Cons.prems have d: "decode_error tc d = None" and ds: "first_decode_error tc ds = None"
    by (simp_all split: option.splits)
  from d obtain a b s where a: "path_text tc (a_path d) = Inr a"
    and b: "path_text tc (b_path d) = Inr b" and s: "as_text tc (diff d) = Inr s"
    by (auto simp: decode_error_def split: sum.splits)
  from Cons.IH[OF ds, of "out @ [''\<newline>--- '' @ a @ ''\<newline>+++ '' @ b @ ''\<newline>'', s]"]
  show ?case
    by (auto simp: a b s entry_text_def)
qed

text \<open>The environment of the handle the network call of push, pull and fetch runs on.\<close>

lemma call_handle_environment:
  "environment (call_handle creds remote_obj repo) =
     (if use_credentials creds remote_obj then
        (environment repo)(''GIT_USERNAME'' := GIT_USERNAME creds, ''GIT_PASSWORD'' := GIT_TOKEN creds)
      else environment repo)"
  by (simp add: call_handle_def custom_environment_def)

lemma call_handle_working_dir: "working_dir (call_handle creds remote_obj repo) = working_dir repo"
  by (simp add: call_handle_def custom_environment_def)

text \<open>The two \<^verbatim>\<open>except git.GitCommandError\<close> clauses, by the text of the error.\<close>

lemma merge_handler_conflict:
  "contains str_e ''automatic merge failed'' \<Longrightarrow>
   merge_handler tc repo (GitCommandError str_e) w =
     (case git tc repo ''merge'' [PStr ''--abort''] w of
        (Inl e, w') \<Rightarrow> (Inl e, w')
      | (Inr u, w') \<Rightarrow> (Inl (ValueError ''Merge failed due to conflicts. Merge aborted.''), w'))"
  by (simp add: merge_handler_def io_defs split: prod.splits sum.splits)

lemma merge_handler_other:
  "\<not> contains str_e ''automatic merge failed'' \<Longrightarrow>
   merge_handler tc repo (GitCommandError str_e) w = (Inl (GitCommandError str_e), w)"
  by (simp add: merge_handler_def io_defs)

lemma pull_handler_classifies:
  "pull_handler (GitCommandError str_e) w =
     (Inl (if contains str_e ''resolve your current index first'' then
             ValueError ''Cannot pull: You have unstaged changes. Please commit or stash them first.''
           else if contains str_e ''automatic merge failed'' then
             ValueError ''Pull failed: Merge conflicts detected. Please resolve conflicts manually.''
           else GitCommandError str_e), w)"
  by (simp add: pull_handler_def io_defs)

text \<open>
  The output of a merge that stops on a conflict has neither of the two texts the
  clauses search for: git writes \<^verbatim>\<open>Automatic merge failed\<close> with a capital letter,
  and the search is case-sensitive.
\<close>

lemma conflict_output_not_matched:
  "\<not> contains (conflict_output ''git merge feature --no-ff'') ''automatic merge failed''"
  "\<not> contains (conflict_output ''git pull'') ''automatic merge failed''"
  "\<not> contains (conflict_output ''git pull'') ''resolve your current index first''"
  by (simp_all add: conflict_output_def squote_def)

lemmas sim_defs = sim_toolchain_def sim_Repo_def sim_process_def sim_lookup_def
  sim_active_branch_def sim_create_head_def sim_commits_def sim_rev_commit_def
  sim_remote_of_def sim_network_def project_def project_repo_def no_login_def ada_login_def

subsection \<open>The schema of a tool and the keys its handler reads\<close>

text \<open>
  On the recording toolchain, with every key bound, dropping any one key of
  \<open>consumed t\<close> changes the outcome of the call; dropping a key that has a default
  still lets the call return.
\<close>

lemma str_int_01: "str_int 0 = ''0''" "str_int 1 = ''1''"
  by code_simp+

lemma call_tool_value:
  "call_tool tc creds (GitTools_value t) arguments =
     io_bind (io_result (getitem arguments ''repo_path'')) (\<lambda>p.
     io_bind (io_result (Path p)) (\<lambda>repo_path.
     io_bind (io_read (Repo tc repo_path)) (\<lambda>repo.
     call_case tc creds repo arguments t)))"
  by (simp add: call_tool_def match_name_value)

lemma trace_runs:
  "\<forall>(key, d) \<in> set (consumed t).
      call_tool trace_toolchain no_login (GitTools_value t) (sample(key := None)) [] \<noteq>
      call_tool trace_toolchain no_login (GitTools_value t) sample [] \<and>
      (d = None \<or> \<not> isl (fst (call_tool trace_toolchain no_login (GitTools_value t)
                                 (sample(key := None)) [])))"
  unfolding call_tool_value
  by (cases t)
    (simp_all add: io_defs getitem_def get_def Path_def
      sample_def trace_toolchain_def no_login_def str_int_01
      git_status_def git_diff_unstaged_def git_diff_staged_def git_diff_def git_commit_def
      git_add_def git_reset_def git_log_def git_create_branch_def git_checkout_def git_show_def
      git_push_def git_pull_def git_fetch_def git_merge_def find_merge_branch_def git_stash_def
      git_stash_pop_def git_get_current_branch_def git_list_branches_def git_delete_branch_def
      git_list_remotes_def git_add_remote_def git_remove_remote_def next_remote_def
      call_handle_def use_credentials_def truthy_str_def as_text_def TextContent_def)

lemma schema_of_consumed: "map field_signature (schema_of t) = consumed t"
  by (cases t)
    (simp_all add: schema_of_def list_tools_def Tool_def field_signature_def required_def
      optional_def
      GitStatus_def GitDiffUnstaged_def GitDiffStaged_def GitDiff_def GitCommit_def GitAdd_def
      GitReset_def GitLog_def GitCreateBranch_def GitCheckout_def GitShow_def GitPush_def
      GitPull_def GitFetch_def GitMerge_def GitStash_def GitStashPop_def GitGetCurrentBranch_def
      GitListBranches_def GitDeleteBranch_def GitListRemotes_def GitAddRemote_def
      GitRemoveRemote_def)

lemma consumed_distinct: "distinct (map fst (consumed t))"
  by (cases t) simp_all

lemma consumed_repo_path: "map_of (consumed t) ''repo_path'' = Some None"
  by (cases t) simp_all

lemma call_tool_bound:
  "call_tool tc creds (GitTools_value t) (bound_arguments t arguments) =
   call_tool tc creds (GitTools_value t) arguments"
proof -
  have "getitem (bound_arguments t arguments) ''repo_path'' = getitem arguments ''repo_path''"
    by (simp add: getitem_def bound_arguments_def consumed_repo_path)
  then show ?thesis
    by (simp add: call_tool_value call_case_bound)
qed

lemma first_missing_exists:
  assumes "(key, None) \<in> set (consumed t)" and "key \<noteq> ''repo_path''" and "arguments key = None"
  shows "\<exists>k. first_missing t arguments = Some k"
proof (cases "find (\<lambda>(key, d). d = None \<and> key \<noteq> ''repo_path'' \<and> arguments key = None) (consumed t)")
  case None
  with assms show ?thesis by (auto simp: find_None_iff)
next
  case (Some a)
  then show ?thesis by (simp add: first_missing_def)
qed

lemma missing_required:
  assumes "(key, None) \<in> set (consumed t)" and "arguments key = None"
  shows "isl (fst (call_tool tc creds (GitTools_value t) arguments w))"
proof (cases "key = ''repo_path''")
  case True
  with assms show ?thesis
    by (simp add: call_tool_value io_defs getitem_def)
next
  case False
  from first_missing_exists[where arguments = arguments and key = key and t = t]
    assms False obtain k where
    "first_missing t arguments = Some k" by blast
  then have "call_case tc creds repo arguments t w = (Inl (KeyError k), w)" for repo
    by (rule call_case_required)
  then show ?thesis
    by (simp add: call_tool_value io_defs split: sum.splits prod.splits)
qed

lemma absent_default:
  assumes "(key, Some d) \<in> set (consumed t)" and "arguments key = None"
  shows "call_tool tc creds (GitTools_value t) (arguments(key \<mapsto> d)) =
         call_tool tc creds (GitTools_value t) arguments"
proof -
  from assms(1) have m: "map_of (consumed t) key = Some (Some d)"
    by (simp add: consumed_distinct)
  have "bound_arguments t (arguments(key \<mapsto> d)) = bound_arguments t arguments"
    using m assms(2) by (auto simp: bound_arguments_def get_def fun_eq_iff split: option.splits)
  then show ?thesis
    by (metis call_tool_bound)
qed

lemma unread_key:
  assumes "key \<notin> fst ` set (consumed t)"
  shows "call_tool tc creds (GitTools_value t) (arguments(key := v)) =
         call_tool tc creds (GitTools_value t) arguments"
proof -
  from assms have m: "map_of (consumed t) key = None"
    by (simp add: map_of_eq_None_iff)
  have "bound_arguments t (arguments(key := v)) = bound_arguments t arguments"
    using m by (auto simp: bound_arguments_def get_def fun_eq_iff split: option.splits)
  then show ?thesis
    by (metis call_tool_bound)
qed

lemma reads_consumed:
  assumes "reads tc creds t key"
  shows "key \<in> fst ` set (consumed t)"
proof (rule ccontr)
  assume "key \<notin> fst ` set (consumed t)"
  then have "call_tool tc creds (GitTools_value t) (arguments(key := v)) w =
      call_tool tc creds (GitTools_value t) arguments w" for arguments v w
    by (simp add: unread_key)
  with assms show False
    by (simp add: reads_def)
qed

lemma consumed_reads:
  assumes "key \<in> fst ` set (consumed t)"
  shows "reads trace_toolchain no_login t key"
proof -
  from assms obtain d where "(key, d) \<in> set (consumed t)" by auto
  with trace_runs[of t] have
    "call_tool trace_toolchain no_login (GitTools_value t) (sample(key := None)) [] \<noteq>
     call_tool trace_toolchain no_login (GitTools_value t) sample []"
    by blast
  then show ?thesis
    unfolding reads_def by blast
qed

lemma schemas_in_order: "map inputSchema list_tools = map schema_of all_tools"
  by (simp add: schema_of_def list_tools_def all_tools_def Tool_def)

lemma schema_names: "set (map field_name (schema_of t)) = fst ` set (consumed t)"
proof -
  have "map field_name (schema_of t) = map fst (map field_signature (schema_of t))"
    by (simp add: field_signature_def)
  then show ?thesis
    by (simp add: schema_of_consumed)
qed

lemma schema_keys:
  "set (map field_name (schema_of t)) = {key. reads trace_toolchain no_login t key}"
proof -
  have "key \<in> fst ` set (consumed t) \<longleftrightarrow> reads trace_toolchain no_login t key" for key
    using reads_consumed[of trace_toolchain no_login t key] consumed_reads[of key t] by blast
  then show ?thesis
    unfolding schema_names by blast
qed

lemma reads_schema: "{key. reads tc creds t key} \<subseteq> set (map field_name (schema_of t))"
  unfolding schema_names using reads_consumed[of tc creds t] by blast

lemma schema_field_consumed:
  assumes "f \<in> set (schema_of t)"
  shows "(field_name f, field_default f) \<in> set (consumed t)"
proof -
  from assms have "field_signature f \<in> set (map field_signature (schema_of t))"
    by simp
  then show ?thesis
    by (simp add: schema_of_consumed field_signature_def)
qed

lemma required_key:
  assumes "(key, None) \<in> set (consumed t)"
  shows "required_by tc creds t key"
  unfolding required_by_def
proof (intro allI impI)
  fix arguments :: "string \<rightharpoonup> pyval" and w
  assume a: "arguments key = None"
  from missing_required[where arguments = arguments and key = key and t = t
      and tc = tc and creds = creds and w = w] assms a
  show "isl (fst (call_tool tc creds (GitTools_value t) arguments w))"
    by simp
qed

lemma optional_key:
  assumes m: "(key, Some d) \<in> set (consumed t)"
  shows "defaults_to tc creds t key d" and "\<not> required_by trace_toolchain no_login t key"
proof -
  show "defaults_to tc creds t key d"
    unfolding defaults_to_def
  proof (intro allI impI)
    fix arguments :: "string \<rightharpoonup> pyval" and w
    assume a: "arguments key = None"
    from absent_default[where arguments = arguments and key = key and d = d and t = t
        and tc = tc and creds = creds] m a
    show "call_tool tc creds (GitTools_value t) arguments w =
        call_tool tc creds (GitTools_value t) (arguments(key \<mapsto> d)) w"
      by simp
  qed
  from trace_runs[of t] m have
    "(case (key, Some d) of (key, d) \<Rightarrow>
        call_tool trace_toolchain no_login (GitTools_value t) (sample(key := None)) [] \<noteq>
        call_tool trace_toolchain no_login (GitTools_value t) sample [] \<and>
        (d = None \<or> \<not> isl (fst (call_tool trace_toolchain no_login (GitTools_value t)
                                   (sample(key := None)) []))))"
    by (rule bspec)
  then have run: "\<not> isl (fst (call_tool trace_toolchain no_login (GitTools_value t)
                       (sample(key := None)) []))"
    by simp
  show "\<not> required_by trace_toolchain no_login t key"
  proof
    assume "required_by trace_toolchain no_login t key"
    then have "(sample(key := None)) key = None \<longrightarrow>
        isl (fst (call_tool trace_toolchain no_login (GitTools_value t) (sample(key := None)) []))"
      unfolding required_by_def by blast
    with run show False by simp
  qed
qed

section \<open>The claims\<close>

text \<open>
  C10. Every successful invocation returns exactly one text segment: the result
  of \<open>call_tool\<close> is a list of one \<open>TextContent\<close> of type \<^verbatim>\<open>text\<close>, whatever the
  tool and the argument mapping. The operations that return a list of entries
  (\<open>git_log\<close>, \<open>git_list_branches\<close>, \<open>git_list_remotes\<close>) have their entries joined
  with newlines into that one segment.
\<close>

theorem call_tool_single_segment:
  assumes "call_tool tc creds name arguments w = (Inr result, w')"
  shows "(\<exists>s. result = [TextContent ''text'' s]) \<and>
    (name = ''git_log'' \<longrightarrow>
       (\<exists>p repo log. arguments ''repo_path'' = Some (PStr p) \<and> Repo tc p w = Inr repo \<and>
          git_log tc repo (get arguments ''max_count'' (PInt 10)) w = (Inr log, w') \<and>
          result = [TextContent ''text'' (''Commit history:\<newline>'' @ join ''\<newline>'' log)])) \<and>
    (name = ''git_list_branches'' \<longrightarrow>
       (\<exists>p repo bs. arguments ''repo_path'' = Some (PStr p) \<and> Repo tc p w = Inr repo \<and>
          git_list_branches tc repo w = (Inr bs, w') \<and>
          result = [TextContent ''text'' (''Branches:\<newline>'' @ join ''\<newline>'' bs)])) \<and>
    (name = ''git_list_remotes'' \<longrightarrow>
       (\<exists>p repo rs. arguments ''repo_path'' = Some (PStr p) \<and> Repo tc p w = Inr repo \<and>
          git_list_remotes tc repo w = (Inr rs, w') \<and>
          result = [TextContent ''text'' (''Remotes:\<newline>'' @ join ''\<newline>'' rs)]))"
proof -
  from assms obtain p repo where
    p: "arguments ''repo_path'' = Some (PStr p)" and repo: "Repo tc p w = Inr repo"
    and run: "(case match_name name of
                 Some tool \<Rightarrow> call_case tc creds repo arguments tool
               | None \<Rightarrow> io_raise (ValueError (''Unknown tool: '' @ name))) w = (Inr result, w')"
    by (auto simp: call_tool_def io_defs getitem_def Path_def
        split: option.splits pyval.splits sum.splits)
  from run obtain t where t: "match_name name = Some t"
    and c: "call_case tc creds repo arguments t w = (Inr result, w')"
    by (auto simp: io_defs split: option.splits)
  have one: "\<exists>s. result = [TextContent ''text'' s]"
    using c by (rule call_case_singleton)
  have log: "name = ''git_log'' \<Longrightarrow> t = LOG"
    and bs: "name = ''git_list_branches'' \<Longrightarrow> t = LIST_BRANCHES"
    and rs: "name = ''git_list_remotes'' \<Longrightarrow> t = LIST_REMOTES"
    using t match_name_value[of LOG] match_name_value[of LIST_BRANCHES]
      match_name_value[of LIST_REMOTES] by auto
  show ?thesis
    using one p repo c log bs rs
    by (auto simp: io_defs split: prod.splits sum.splits)
qed

text \<open>
  C10 on the project: \<open>git_log\<close> returns two entries and the invocation one segment
  that holds both.
\<close>

theorem call_tool_single_segment_log:
  "call_tool sim_toolchain no_login ''git_log'' [''repo_path'' \<mapsto> PStr ''/srv/project''] project =
     (Inr [TextContent ''text''
        (''Commit history:\<newline>'' @
         ''Commit: c2\<newline>Author: Ada\<newline>Date: 2024-05-02 10:00:00+00:00\<newline>Message: second\<newline>'' @
         ''\<newline>'' @
         ''Commit: c1\<newline>Author: Ada\<newline>Date: 2024-05-01 09:00:00+00:00\<newline>Message: first\<newline>'')],
      project) \<and>
   (\<exists>p repo log.
      [''repo_path'' \<mapsto> PStr ''/srv/project''] ''repo_path'' = Some (PStr p) \<and>
      Repo sim_toolchain p project = Inr repo \<and>
      git_log sim_toolchain repo (get [''repo_path'' \<mapsto> PStr ''/srv/project''] ''max_count'' (PInt 10))
        project = (Inr log, project) \<and>
      [TextContent ''text''
        (''Commit history:\<newline>'' @
         ''Commit: c2\<newline>Author: Ada\<newline>Date: 2024-05-02 10:00:00+00:00\<newline>Message: second\<newline>'' @
         ''\<newline>'' @
         ''Commit: c1\<newline>Author: Ada\<newline>Date: 2024-05-01 09:00:00+00:00\<newline>Message: first\<newline>'')] =
      [TextContent ''text'' (''Commit history:\<newline>'' @ join ''\<newline>'' log)])"
proof -
  have run: "call_tool sim_toolchain no_login ''git_log'' [''repo_path'' \<mapsto> PStr ''/srv/project''] project =
     (Inr [TextContent ''text''
        (''Commit history:\<newline>'' @
         ''Commit: c2\<newline>Author: Ada\<newline>Date: 2024-05-02 10:00:00+00:00\<newline>Message: second\<newline>'' @
         ''\<newline>'' @
         ''Commit: c1\<newline>Author: Ada\<newline>Date: 2024-05-01 09:00:00+00:00\<newline>Message: first\<newline>'')],
      project)"
    by (simp add: call_tool_def io_defs getitem_def get_def Path_def match_name_def all_tools_def
        git_log_def commit_lines_def sim_defs)
  from call_tool_single_segment[OF run] have "\<exists>p repo log.
      [''repo_path'' \<mapsto> PStr ''/srv/project''] ''repo_path'' = Some (PStr p) \<and>
      Repo sim_toolchain p project = Inr repo \<and>
      git_log sim_toolchain repo (get [''repo_path'' \<mapsto> PStr ''/srv/project''] ''max_count'' (PInt 10))
        project = (Inr log, project) \<and>
      [TextContent ''text''
        (''Commit history:\<newline>'' @
         ''Commit: c2\<newline>Author: Ada\<newline>Date: 2024-05-02 10:00:00+00:00\<newline>Message: second\<newline>'' @
         ''\<newline>'' @
         ''Commit: c1\<newline>Author: Ada\<newline>Date: 2024-05-01 09:00:00+00:00\<newline>Message: first\<newline>'')] =
      [TextContent ''text'' (''Commit history:\<newline>'' @ join ''\<newline>'' log)]"
    by blast
  with run show ?thesis by (rule conjI)
qed

text \<open>
  C4, as the code has it. \<open>call_tool\<close> reads \<open>repo_path\<close> and opens the repository
  before it looks at the tool name. For a name that is not in the catalog the
  invocation therefore fails with \<open>KeyError\<close> when \<open>repo_path\<close> is absent, with
  the error of \<^verbatim>\<open>Path\<close> or \<^verbatim>\<open>git.Repo\<close> when the path is no string or does not
  open as a repository, and with \<^verbatim>\<open>ValueError("Unknown tool: <name>")\<close> otherwise.
  In every case it returns an error value and leaves the repository as it was.
\<close>

theorem unknown_tool_after_repo_path:
  assumes "name \<notin> set (map tool_name list_tools)"
  shows "call_tool tc creds name arguments w =
     (case arguments ''repo_path'' of
        None \<Rightarrow> (Inl (KeyError ''repo_path''), w)
      | Some v \<Rightarrow>
          (case Path v of
             Inl e \<Rightarrow> (Inl e, w)
           | Inr p \<Rightarrow>
               (case Repo tc p w of
                  Inl e \<Rightarrow> (Inl e, w)
                | Inr repo \<Rightarrow> (Inl (ValueError (''Unknown tool: '' @ name)), w))))"
proof -
  from assms have "match_name name = None"
    using match_name_None by blast
  then show ?thesis
    by (simp add: call_tool_def io_defs getitem_def split: option.splits sum.splits)
qed

text \<open>
  C4 on the project: an unknown name with a valid \<open>repo_path\<close> is reported as an
  unknown tool.
\<close>

theorem unknown_tool_on_project:
  "''git_rebase'' \<notin> set (map tool_name list_tools) \<and>
   call_tool sim_toolchain no_login ''git_rebase'' [''repo_path'' \<mapsto> PStr ''/srv/project''] project =
     (Inl (ValueError ''Unknown tool: git_rebase''), project)"
proof -
  have n: "''git_rebase'' \<notin> set (map tool_name list_tools)"
    by (simp add: list_tools_def Tool_def)
  have "call_tool sim_toolchain no_login ''git_rebase''
      [''repo_path'' \<mapsto> PStr ''/srv/project''] project =
     (Inl (ValueError ''Unknown tool: git_rebase''), project)"
    unfolding unknown_tool_after_repo_path[OF n]
    by (simp add: Path_def sim_toolchain_def sim_Repo_def)
  with n show ?thesis by (rule conjI)
qed

text \<open>
  C4 as stated fails: the unknown name \<open>git_rebase\<close> invoked with an empty argument
  mapping is answered with \<open>KeyError\<close> for the missing \<open>repo_path\<close>, not with the
  unknown-tool error, because the lookup of the name comes last.
\<close>

theorem unknown_tool_without_repo_path:
  "''git_rebase'' \<notin> set (map tool_name list_tools) \<and>
   call_tool sim_toolchain no_login ''git_rebase'' Map.empty project =
     (Inl (KeyError ''repo_path''), project)"
  by (simp add: list_tools_def Tool_def call_tool_def io_defs getitem_def)

text \<open>
  C9, as the code has it. A successful invocation returns one segment whose text
  is the label of the operation followed by the operation's return value (a list
  of strings joined with newlines). Seven operations have a label: status,
  diff-unstaged, diff-staged, diff (which names the target), log, list-branches
  and list-remotes; for the other sixteen the label is empty and the text is the
  return value itself.
\<close>

theorem call_tool_labels:
  assumes "call_tool tc creds name arguments w = (Inr result, w')"
  shows "\<exists>t p repo r.
     name = GitTools_value t \<and> arguments ''repo_path'' = Some (PStr p) \<and>
     Repo tc p w = Inr repo \<and>
     operation tc creds repo arguments t w = (Inr r, w') \<and>
     result = [TextContent ''text'' (label tc arguments t @ rendered r)] \<and>
     (label tc arguments t = [] \<longleftrightarrow>
        t \<notin> set [STATUS, DIFF_UNSTAGED, DIFF_STAGED, DIFF, LOG, LIST_BRANCHES, LIST_REMOTES])"
proof -
  from assms obtain p repo where
    p: "arguments ''repo_path'' = Some (PStr p)" and repo: "Repo tc p w = Inr repo"
    and run: "(case match_name name of
                 Some tool \<Rightarrow> call_case tc creds repo arguments tool
               | None \<Rightarrow> io_raise (ValueError (''Unknown tool: '' @ name))) w = (Inr result, w')"
    by (auto simp: call_tool_def io_defs getitem_def Path_def
        split: option.splits pyval.splits sum.splits)
  from run obtain t where t: "match_name name = Some t"
    and c: "call_case tc creds repo arguments t w = (Inr result, w')"
    by (auto simp: io_defs split: option.splits)
  from c obtain r where r: "operation tc creds repo arguments t w = (Inr r, w')"
    and res: "result = [TextContent ''text'' (label tc arguments t @ rendered r)]"
    unfolding call_case_operation by (auto simp: io_defs split: prod.splits sum.splits)
  have lab: "label tc arguments t = [] \<longleftrightarrow>
      t \<notin> set [STATUS, DIFF_UNSTAGED, DIFF_STAGED, DIFF, LOG, LIST_BRANCHES, LIST_REMOTES]"
    by (cases t) simp_all
  from match_name_Some[OF t] p repo r res lab show ?thesis by blast
qed

text \<open>
  C9 on the project: the status text is \<^verbatim>\<open>Repository status:\<close>, a newline, and the
  output of git.
\<close>

theorem call_tool_labels_status:
  "call_tool sim_toolchain no_login ''git_status'' [''repo_path'' \<mapsto> PStr ''/srv/project''] project =
     (Inr [TextContent ''text'' ''Repository status:\<newline>On branch main''], project) \<and>
   (\<exists>t p repo r.
      ''git_status'' = GitTools_value t \<and>
      Repo sim_toolchain p project = Inr repo \<and>
      operation sim_toolchain no_login repo [''repo_path'' \<mapsto> PStr ''/srv/project''] t project =
        (Inr r, project) \<and>
      [TextContent ''text'' ''Repository status:\<newline>On branch main''] =
        [TextContent ''text''
           (label sim_toolchain [''repo_path'' \<mapsto> PStr ''/srv/project''] t @ rendered r)])"
proof -
  have run: "call_tool sim_toolchain no_login ''git_status''
      [''repo_path'' \<mapsto> PStr ''/srv/project''] project =
     (Inr [TextContent ''text'' ''Repository status:\<newline>On branch main''], project)"
    by (simp add: call_tool_def io_defs getitem_def Path_def match_name_def all_tools_def
        git_status_def as_text_def sim_defs)
  from call_tool_labels[OF run] have "\<exists>t p repo r.
      ''git_status'' = GitTools_value t \<and>
      Repo sim_toolchain p project = Inr repo \<and>
      operation sim_toolchain no_login repo [''repo_path'' \<mapsto> PStr ''/srv/project''] t project =
        (Inr r, project) \<and>
      [TextContent ''text'' ''Repository status:\<newline>On branch main''] =
        [TextContent ''text''
           (label sim_toolchain [''repo_path'' \<mapsto> PStr ''/srv/project''] t @ rendered r)]"
    by blast
  with run show ?thesis by (rule conjI)
qed

text \<open>
  C9 as stated fails: the text of a successful commit is exactly what
  \<open>git_commit\<close> returns, with no label in front of it.
\<close>

theorem commit_text_has_no_label:
  "call_tool sim_toolchain no_login ''git_commit''
     [''repo_path'' \<mapsto> PStr ''/srv/project'', ''message'' \<mapsto> PStr ''second''] project =
     (Inr [TextContent ''text'' ''Changes committed successfully with hash c2''], project) \<and>
   git_commit sim_toolchain project_repo (PStr ''second'') project =
     (Inr ''Changes committed successfully with hash c2'', project)"
  by (simp add: call_tool_def io_defs getitem_def Path_def match_name_def all_tools_def
      git_commit_def sim_defs)

text \<open>
  C2, as the code has it. \<open>list_tools\<close> is a constant list, so every call returns
  the same sequence. It has 23 descriptors, one for each member of \<open>GitTools\<close> in
  the order of the enumeration, with pairwise different names, and the schema of
  each is the one published under the tool's name. For every tool, the field
  names of its schema are exactly the keys whose binding changes the outcome of
  some call of \<open>call_tool\<close> on the recording toolchain, and on no toolchain does
  the binding of any other key change the outcome of a call. A schema field
  without default is required: on every toolchain a call that leaves the key out
  raises. A schema field with default \<open>d\<close> is optional: on every toolchain leaving
  the key out is the same call as binding it to \<open>d\<close>, and some call on the
  recording toolchain returns without it.
\<close>

theorem list_tools_catalog:
  "length list_tools = 23 \<and>
   map tool_name list_tools = map GitTools_value all_tools \<and>
   set all_tools = UNIV \<and>
   distinct (map tool_name list_tools) \<and>
   map inputSchema list_tools = map schema_of all_tools \<and>
   (\<forall>t. set (map field_name (schema_of t)) = {key. reads trace_toolchain no_login t key} \<and>
        {key. reads tc creds t key} \<subseteq> set (map field_name (schema_of t)) \<and>
        (\<forall>f \<in> set (schema_of t).
           case field_default f of
             None \<Rightarrow> required_by tc creds t (field_name f)
           | Some d \<Rightarrow>
               defaults_to tc creds t (field_name f) d \<and>
               \<not> required_by trace_toolchain no_login t (field_name f)))"
proof -
  have count: "length list_tools = 23"
    by (simp add: list_tools_def)
  have fields: "case field_default f of
             None \<Rightarrow> required_by tc creds t (field_name f)
           | Some d \<Rightarrow>
               defaults_to tc creds t (field_name f) d \<and>
               \<not> required_by trace_toolchain no_login t (field_name f)"
    if f: "f \<in> set (schema_of t)" for t f
  proof (cases "field_default f")
    case None
    with schema_field_consumed[OF f] have "(field_name f, None) \<in> set (consumed t)"
      by simp
    then have "required_by tc creds t (field_name f)"
      by (rule required_key)
    with None show ?thesis by simp
  next
    case (Some d)
    with schema_field_consumed[OF f] have m: "(field_name f, Some d) \<in> set (consumed t)"
      by simp
    from optional_key(1)[OF m, of tc creds] optional_key(2)[OF m] Some
    show ?thesis by simp
  qed
  have each: "set (map field_name (schema_of t)) = {key. reads trace_toolchain no_login t key} \<and>
        {key. reads tc creds t key} \<subseteq> set (map field_name (schema_of t)) \<and>
        (\<forall>f \<in> set (schema_of t).
           case field_default f of
             None \<Rightarrow> required_by tc creds t (field_name f)
           | Some d \<Rightarrow>
               defaults_to tc creds t (field_name f) d \<and>
               \<not> required_by trace_toolchain no_login t (field_name f))" for t
    using schema_keys[of t] reads_schema[of tc creds t] fields[of _ t] by (intro conjI ballI)
  show ?thesis
    by (intro conjI allI count tool_names all_tools_complete names_distinct schemas_in_order)
      (rule each[THEN conjunct1], rule each[THEN conjunct2, THEN conjunct1],
       rule each[THEN conjunct2, THEN conjunct2])
qed

theorem list_tools_catalog_stash:
  "reads trace_toolchain no_login STASH ''repo_path'' \<and>
   reads trace_toolchain no_login STASH ''message'' \<and>
   \<not> reads trace_toolchain no_login STASH ''remote'' \<and>
   call_tool trace_toolchain no_login ''git_stash'' [''repo_path'' \<mapsto> PStr ''/srv/project''] [] =
   call_tool trace_toolchain no_login ''git_stash''
     [''repo_path'' \<mapsto> PStr ''/srv/project'', ''message'' \<mapsto> PNone] [] \<and>
   isl (fst (call_tool trace_toolchain no_login ''git_stash'' [''message'' \<mapsto> PStr ''wip''] []))"
proof -
  have s: "schema_of STASH = GitStash"
    by (simp add: schema_of_def list_tools_def Tool_def)
  note t = list_tools_catalog[where tc = trace_toolchain and creds = no_login,
      THEN conjunct2, THEN conjunct2, THEN conjunct2, THEN conjunct2, THEN conjunct2,
      THEN spec, of STASH]
  from t[THEN conjunct1] have k:
    "{key. reads trace_toolchain no_login STASH key} = {''repo_path'', ''message''}"
    by (simp add: s GitStash_def required_def optional_def)
  have r1: "reads trace_toolchain no_login STASH ''repo_path''"
    and r2: "reads trace_toolchain no_login STASH ''message''"
    and r3: "\<not> reads trace_toolchain no_login STASH ''remote''"
    using k by (simp_all add: set_eq_iff)
  from t[THEN conjunct2, THEN conjunct2]
  have d: "defaults_to trace_toolchain no_login STASH ''message'' PNone"
    and q: "required_by trace_toolchain no_login STASH ''repo_path''"
    by (simp_all add: s GitStash_def required_def optional_def)
  from d have "[''repo_path'' \<mapsto> PStr ''/srv/project''] ''message'' = None \<longrightarrow>
      call_tool trace_toolchain no_login (GitTools_value STASH)
        [''repo_path'' \<mapsto> PStr ''/srv/project''] [] =
      call_tool trace_toolchain no_login (GitTools_value STASH)
        ([''repo_path'' \<mapsto> PStr ''/srv/project'']( ''message'' \<mapsto> PNone)) []"
    unfolding defaults_to_def by blast
  then have e: "call_tool trace_toolchain no_login ''git_stash''
        [''repo_path'' \<mapsto> PStr ''/srv/project''] [] =
      call_tool trace_toolchain no_login ''git_stash''
        [''repo_path'' \<mapsto> PStr ''/srv/project'', ''message'' \<mapsto> PNone] []"
    by simp
  from q have "[''message'' \<mapsto> PStr ''wip''] ''repo_path'' = None \<longrightarrow>
      isl (fst (call_tool trace_toolchain no_login (GitTools_value STASH)
        [''message'' \<mapsto> PStr ''wip''] []))"
    unfolding required_by_def by blast
  then have i: "isl (fst (call_tool trace_toolchain no_login ''git_stash''
        [''message'' \<mapsto> PStr ''wip''] []))"
    by simp
  from r1 r2 r3 e i show ?thesis by (intro conjI)
qed

text \<open>C2 as stated fails on the count: the catalog has 23 operations, not 22.\<close>

theorem list_tools_not_22: "length list_tools = 23 \<and> length list_tools \<noteq> 22"
  by (simp add: list_tools_def)

text \<open>
  C5, as the code has it. For a \<open>ServerSession\<close>: without the roots capability
  \<open>list_repos\<close> returns the static path alone (or nothing); with it, and when
  every root the client reports either opens as a repository or is refused as not
  being one (\<open>InvalidGitRepositoryError\<close>), it returns the roots that open, in the
  order reported, followed by the static path. When the roots request itself
  raises, \<open>list_repos\<close> raises the same error: nothing catches it.
\<close>

theorem list_repos_roots_then_static:
  assumes "is_ServerSession s"
  shows "(\<not> check_client_capability s \<longrightarrow>
            list_repos tc s repository w = Inr (by_commandline repository)) \<and>
         (check_client_capability s \<and> list_roots s = Inr roots \<and>
          (\<forall>p\<in>set roots. is_repository tc w p \<or> not_a_repository tc w p) \<longrightarrow>
            list_repos tc s repository w =
              Inr (filter (is_repository tc w) roots @ by_commandline repository)) \<and>
         (check_client_capability s \<and> list_roots s = Inl e \<longrightarrow>
            list_repos tc s repository w = Inl e)"
  using assms by (auto simp: list_repos_def by_roots_def roots_loop_filter)

text \<open>
  C5 on the project: of the two reported roots the one that is a repository is
  kept and the static path comes last; without the capability only the static
  path is returned.
\<close>

theorem list_repos_on_project:
  "list_repos sim_toolchain (roots_session (Inr [''/srv/notes'', ''/srv/project''])) (Some ''/srv/archive'')
     project = Inr [''/srv/project'', ''/srv/archive''] \<and>
   list_repos sim_toolchain
     \<lparr>is_ServerSession = True, check_client_capability = False, list_roots = Inr [''/srv/project'']\<rparr>
     (Some ''/srv/archive'') project = Inr [''/srv/archive'']"
proof -
  have s: "is_ServerSession (roots_session (Inr [''/srv/notes'', ''/srv/project'']))"
    and c: "check_client_capability (roots_session (Inr [''/srv/notes'', ''/srv/project'']))"
    and l: "list_roots (roots_session (Inr [''/srv/notes'', ''/srv/project''])) =
              Inr [''/srv/notes'', ''/srv/project'']"
    by (simp_all add: roots_session_def)
  have ok: "\<forall>p\<in>set [''/srv/notes'', ''/srv/project''].
      is_repository sim_toolchain project p \<or> not_a_repository sim_toolchain project p"
    by (simp add: is_repository_def not_a_repository_def sim_toolchain_def sim_Repo_def)
  have f: "filter (is_repository sim_toolchain project) [''/srv/notes'', ''/srv/project''] =
      [''/srv/project'']"
    by (simp add: is_repository_def sim_toolchain_def sim_Repo_def)
  from list_repos_roots_then_static[OF s, where roots = "[''/srv/notes'', ''/srv/project'']"
      and tc = sim_toolchain and w = project and repository = "Some ''/srv/archive''"] c l ok
  have "list_repos sim_toolchain (roots_session (Inr [''/srv/notes'', ''/srv/project'']))
      (Some ''/srv/archive'') project =
      Inr (filter (is_repository sim_toolchain project) [''/srv/notes'', ''/srv/project''] @
           by_commandline (Some ''/srv/archive''))"
    by blast
  then have one: "list_repos sim_toolchain (roots_session (Inr [''/srv/notes'', ''/srv/project'']))
      (Some ''/srv/archive'') project = Inr [''/srv/project'', ''/srv/archive'']"
    unfolding f by_commandline_def by simp
  have s': "is_ServerSession
      \<lparr>is_ServerSession = True, check_client_capability = False, list_roots = Inr [''/srv/project'']\<rparr>"
    by simp
  from list_repos_roots_then_static[OF s', where tc = sim_toolchain and w = project
      and repository = "Some ''/srv/archive''"]
  have two: "list_repos sim_toolchain
     \<lparr>is_ServerSession = True, check_client_capability = False, list_roots = Inr [''/srv/project'']\<rparr>
     (Some ''/srv/archive'') project = Inr [''/srv/archive'']"
    by (simp add: by_commandline_def)
  from one two show ?thesis by (rule conjI)
qed

text \<open>
  C5 as stated fails: when the roots request raises, \<open>list_repos\<close> does not return
  the static path but the error of the request.
\<close>

theorem list_repos_query_fails:
  "list_repos sim_toolchain (roots_session (Inl (OtherError ''roots/list: request timed out'')))
     (Some ''/srv/project'') project = Inl (OtherError ''roots/list: request timed out'')"
  by (simp add: list_repos_def by_roots_def roots_session_def by_commandline_def)

text \<open>
  C6, as the code has it. When \<open>base_branch\<close> is truthy (given and not the empty
  string) and is no local branch, \<open>git_create_branch\<close> fails with
  \<^verbatim>\<open>ValueError("Branch '<base>' not found")\<close> and the repository is as before. When
  it succeeds, the base is \<^verbatim>\<open>repo.heads[base_branch]\<close> for a truthy \<open>base_branch\<close>
  and the checked-out branch otherwise (\<open>base_branch\<close> absent, \<open>None\<close> or empty), and
  the resulting repository is the one the single call
  \<^verbatim>\<open>repo.create_head(branch_name, base)\<close> leaves: the new branch is created at the
  base and nothing is checked out.
\<close>

theorem git_create_branch_base:
  "(truthy base_branch \<and> heads_getitem tc repo base_branch w = Inl (IndexError m) \<longrightarrow>
      git_create_branch tc repo branch_name base_branch w =
        (Inl (ValueError (''Branch '' @ squote (py_str tc base_branch) @ '' not found'')), w)) \<and>
   (git_create_branch tc repo branch_name base_branch w = (Inr msg, w') \<longrightarrow>
      (\<exists>base new_branch.
         (if truthy base_branch then heads_getitem tc repo base_branch w
          else active_branch tc repo w) = Inr base \<and>
         create_head tc repo branch_name base w = (Inr new_branch, w') \<and>
         msg = ''Created branch '' @ squote (py_str tc branch_name) @
               '' from '' @ squote (ref_name base)))"
  by (auto simp: git_create_branch_def io_defs split: prod.splits sum.splits exn.splits if_splits)

text \<open>
  C6 on the project: a base that is no branch is refused and nothing changes;
  without a base the new branch \<open>topic\<close> points at the commit of the checked-out
  \<open>main\<close>, which stays checked out.
\<close>

theorem git_create_branch_on_project:
  "git_create_branch sim_toolchain project_repo (PStr ''topic'') (PStr ''nope'') project =
     (Inl (ValueError (''Branch '' @ squote ''nope'' @ '' not found'')), project) \<and>
   git_create_branch sim_toolchain project_repo (PStr ''topic'') PNone project =
     (Inr (''Created branch '' @ squote ''topic'' @ '' from '' @ squote ''main''),
      project\<lparr>branches := [(''main'', ''c2''), (''feature'', ''c3''), (''topic'', ''c2'')]\<rparr>) \<and>
   (\<exists>base new_branch.
      active_branch sim_toolchain project_repo project = Inr base \<and>
      create_head sim_toolchain project_repo (PStr ''topic'') base project =
        (Inr new_branch,
         project\<lparr>branches := [(''main'', ''c2''), (''feature'', ''c3''), (''topic'', ''c2'')]\<rparr>)) \<and>
   checked_out (project\<lparr>branches := [(''main'', ''c2''), (''feature'', ''c3''), (''topic'', ''c2'')]\<rparr>)
     = checked_out project"
proof -
  have miss: "truthy (PStr ''nope'') \<and>
      heads_getitem sim_toolchain project_repo (PStr ''nope'') project =
        Inl (IndexError (''No item found with id '' @ squote ''nope''))"
    by (simp add: sim_defs)
  from git_create_branch_base[THEN conjunct1, rule_format, OF miss]
  have one: "git_create_branch sim_toolchain project_repo (PStr ''topic'') (PStr ''nope'') project =
     (Inl (ValueError (''Branch '' @ squote ''nope'' @ '' not found'')), project)"
    by simp
  have run: "git_create_branch sim_toolchain project_repo (PStr ''topic'') PNone project =
     (Inr (''Created branch '' @ squote ''topic'' @ '' from '' @ squote ''main''),
      project\<lparr>branches := [(''main'', ''c2''), (''feature'', ''c3''), (''topic'', ''c2'')]\<rparr>)"
    by (simp add: git_create_branch_def io_defs sim_defs)
  from git_create_branch_base[THEN conjunct2, rule_format, OF run]
  have three: "\<exists>base new_branch.
      active_branch sim_toolchain project_repo project = Inr base \<and>
      create_head sim_toolchain project_repo (PStr ''topic'') base project =
        (Inr new_branch,
         project\<lparr>branches := [(''main'', ''c2''), (''feature'', ''c3''), (''topic'', ''c2'')]\<rparr>)"
    by auto
  have four: "checked_out (project\<lparr>branches := [(''main'', ''c2''), (''feature'', ''c3''), (''topic'', ''c2'')]\<rparr>)
     = checked_out project"
    by simp
  from one run three four show ?thesis by blast
qed

text \<open>
  C6 as stated fails: the empty string is given as \<open>base_branch\<close> and is no local
  branch, yet the branch is created, from the checked-out branch.
\<close>

theorem git_create_branch_empty_base:
  "heads_getitem sim_toolchain project_repo (PStr []) project =
     Inl (IndexError (''No item found with id '' @ squote [])) \<and>
   git_create_branch sim_toolchain project_repo (PStr ''topic'') (PStr []) project =
     (Inr (''Created branch '' @ squote ''topic'' @ '' from '' @ squote ''main''),
      project\<lparr>branches := [(''main'', ''c2''), (''feature'', ''c3''), (''topic'', ''c2'')]\<rparr>)"
  by (simp add: git_create_branch_def io_defs sim_defs)

text \<open>
  C7, as the code has it. \<open>git_show\<close> resolves the revision, takes the diff of the
  first parent against the commit when the commit has parents and the diff of the
  commit against the empty tree when it has none, and converts every path and
  patch of the entries to text. When the diff is produced and every conversion
  succeeds, the returned text is the four commit lines followed, for every entry
  in order, by its \<^verbatim>\<open>---\<close>/\<^verbatim>\<open>+++\<close> header and its patch: for a root commit the
  contents of the files it adds. When the revision does not resolve, the diff
  call raises, or a path or patch is not valid UTF-8, \<open>git_show\<close> fails with that
  error and returns no text.
\<close>

theorem git_show_text:
  "git_show tc repo revision w =
     (case rev_commit tc repo revision w of
        Inl e \<Rightarrow> (Inl e, w)
      | Inr c \<Rightarrow>
          (case (case parents c of
                   parent # _ \<Rightarrow> diff_parent tc repo parent c w
                 | [] \<Rightarrow> diff_null_tree tc repo c w) of
             (Inl e, w') \<Rightarrow> (Inl e, w')
           | (Inr ds, w') \<Rightarrow>
               (case first_decode_error tc ds of
                  Some e \<Rightarrow> (Inl e, w')
                | None \<Rightarrow> (Inr (commit_lines c @ concat (map (entry_text tc) ds)), w'))))"
proof (cases "rev_commit tc repo revision w")
  case (Inl e)
  then show ?thesis by (simp add: git_show_def io_defs)
next
  case (Inr c)
  obtain r w' where run: "(case parents c of
                   parent # _ \<Rightarrow> diff_parent tc repo parent c w
                 | [] \<Rightarrow> diff_null_tree tc repo c w) = (r, w')"
    by (cases "(case parents c of
                   parent # _ \<Rightarrow> diff_parent tc repo parent c w
                 | [] \<Rightarrow> diff_null_tree tc repo c w)") auto
  have run': "(case parents c of
                   parent # _ \<Rightarrow> diff_parent tc repo parent c
                 | [] \<Rightarrow> diff_null_tree tc repo c) w = (r, w')"
    using run by (cases "parents c") auto
  show ?thesis
  proof (cases r)
    case (Inl e)
    with Inr run run' show ?thesis by (simp add: git_show_def io_defs)
  next
    case ds: (Inr ds)
    show ?thesis
    proof (cases "first_decode_error tc ds")
      case (Some e)
      from show_entries_error[OF Some]
      have "show_entries tc ds [commit_lines c] = Inl e" .
      with Inr run run' ds Some show ?thesis by (simp add: git_show_def io_defs)
    next
      case None
      from show_entries_text[OF None, of "[commit_lines c]"] obtain res where
        "show_entries tc ds [commit_lines c] = Inr res"
        "concat res = commit_lines c @ concat (map (entry_text tc) ds)"
        by auto
      with Inr run run' ds None show ?thesis by (simp add: git_show_def io_defs)
    qed
  qed
qed

text \<open>
  C7 on the project: the root commit \<open>c1\<close> shows the file it adds, the commit \<open>c2\<close>
  the change against its parent, and a revision that does not resolve fails.
\<close>

theorem git_show_on_project:
  "git_show sim_toolchain project_repo (PStr ''c1'') project =
     (Inr (''Commit: c1\<newline>Author: Ada\<newline>Date: 2024-05-01 09:00:00+00:00\<newline>Message: first\<newline>'' @
           ''\<newline>--- None\<newline>+++ a.txt\<newline>'' @ ''@@ -0,0 +1 @@\<newline>+one\<newline>''), project) \<and>
   git_show sim_toolchain project_repo (PStr ''c2'') project =
     (Inr (''Commit: c2\<newline>Author: Ada\<newline>Date: 2024-05-02 10:00:00+00:00\<newline>Message: second\<newline>'' @
           ''\<newline>--- a.txt\<newline>+++ a.txt\<newline>'' @ ''@@ -1 +1 @@\<newline>-one\<newline>+two\<newline>''), project) \<and>
   git_show sim_toolchain project_repo (PStr ''c9'') project = (Inl (OtherError ''BadName''), project)"
proof -
  have one: "git_show sim_toolchain project_repo (PStr ''c1'') project =
     (Inr (''Commit: c1\<newline>Author: Ada\<newline>Date: 2024-05-01 09:00:00+00:00\<newline>Message: first\<newline>'' @
           ''\<newline>--- None\<newline>+++ a.txt\<newline>'' @ ''@@ -0,0 +1 @@\<newline>+one\<newline>''), project)"
    unfolding git_show_text
    by (simp add: sim_defs decode_error_def path_text_def as_text_def commit_lines_def
        entry_text_def)
  have two: "git_show sim_toolchain project_repo (PStr ''c2'') project =
     (Inr (''Commit: c2\<newline>Author: Ada\<newline>Date: 2024-05-02 10:00:00+00:00\<newline>Message: second\<newline>'' @
           ''\<newline>--- a.txt\<newline>+++ a.txt\<newline>'' @ ''@@ -1 +1 @@\<newline>-one\<newline>+two\<newline>''), project)"
    unfolding git_show_text
    by (simp add: sim_defs decode_error_def path_text_def as_text_def commit_lines_def
        entry_text_def)
  have three: "git_show sim_toolchain project_repo (PStr ''c9'') project =
      (Inl (OtherError ''BadName''), project)"
    unfolding git_show_text by (simp add: sim_defs)
  from one two three show ?thesis by blast
qed

text \<open>
  C7 as stated fails: the root commit of the Latin-1 project has a patch that is
  not valid UTF-8, and showing it fails instead of returning the added contents.
\<close>

theorem git_show_latin1_root_fails:
  "rev_commit latin1_toolchain project_repo (PStr ''c1'') project =
     Inr \<lparr>hexsha = ''c1'', author = ''Ada'', authored_datetime = ''2024-05-01 09:00:00+00:00'',
          message = ''first'', parents = []\<rparr> \<and>
   git_show latin1_toolchain project_repo (PStr ''c1'') project =
     (Inl (UnicodeDecodeError ''utf-8 codec cannot decode byte 0xff: invalid start byte''), project)"
  by (simp add: git_show_def io_defs latin1_toolchain_def strict_utf8_decode_def sim_defs
      path_text_def as_text_def)

text \<open>
  C8, as the code has it. For a remote that \<^verbatim>\<open>repo.remote\<close> finds, push, pull and
  fetch run their one network call on a handle whose environment has
  \<^verbatim>\<open>GIT_USERNAME\<close> and \<^verbatim>\<open>GIT_PASSWORD\<close> set to the two credentials if and only if
  the URL of the remote starts with \<^verbatim>\<open>https://\<close> and both credentials are set and
  not empty; otherwise it is the environment of the handle as opened. The
  credentials are in the environment of that call only. Push and fetch issue no
  other call; pull first writes \<^verbatim>\<open>pull.rebase\<close> (\<^verbatim>\<open>true\<close> or \<^verbatim>\<open>false\<close>) to the
  configuration, its only write there.
\<close>

theorem credentials_for_https_remotes:
  assumes "remote_of tc repo remote w = Inr remote_obj"
  shows "environment (call_handle creds remote_obj repo) =
       (if startswith (remote_url remote_obj) ''https://'' \<and>
           truthy_str (GIT_USERNAME creds) \<and> truthy_str (GIT_TOKEN creds)
        then (environment repo)
               (''GIT_USERNAME'' := GIT_USERNAME creds, ''GIT_PASSWORD'' := GIT_TOKEN creds)
        else environment repo) \<and>
     working_dir (call_handle creds remote_obj repo) = working_dir repo \<and>
     git_push tc creds repo remote branch w =
       (case remote_push tc (call_handle creds remote_obj repo) remote_obj
               (if truthy branch then Some branch else None) w of
          (Inl e, w') \<Rightarrow> (Inl e, w')
        | (Inr u, w') \<Rightarrow>
            (Inr (''Pushed changes to '' @ py_str tc remote @
                  (if truthy branch then ''/'' @ py_str tc branch else [])), w')) \<and>
     git_fetch tc creds repo remote w =
       (case remote_fetch tc (call_handle creds remote_obj repo) remote_obj w of
          (Inl e, w') \<Rightarrow> (Inl e, w')
        | (Inr u, w') \<Rightarrow> (Inr (''Fetched changes from '' @ py_str tc remote), w')) \<and>
     git_pull tc creds repo remote branch rebase w =
       (case config_set_value tc repo ''pull'' ''rebase''
               (if truthy rebase then ''true'' else ''false'') w of
          (Inl e, w1) \<Rightarrow> (Inl e, w1)
        | (Inr u, w1) \<Rightarrow>
            (case git tc (call_handle creds remote_obj repo) ''pull''
                    (if truthy branch then [remote, branch] else []) w1 of
               (Inl e, w') \<Rightarrow> pull_handler e w'
             | (Inr v, w') \<Rightarrow>
                 (Inr (''Pulled and '' @ (if truthy rebase then ''rebased'' else ''merged'') @
                       '' changes from '' @ py_str tc remote @
                       (if truthy branch then ''/'' @ py_str tc branch else [])), w')))"
proof -
  have env: "environment (call_handle creds remote_obj repo) =
       (if startswith (remote_url remote_obj) ''https://'' \<and>
           truthy_str (GIT_USERNAME creds) \<and> truthy_str (GIT_TOKEN creds)
        then (environment repo)
               (''GIT_USERNAME'' := GIT_USERNAME creds, ''GIT_PASSWORD'' := GIT_TOKEN creds)
        else environment repo)"
    by (simp add: call_handle_environment use_credentials_def)
  have push: "git_push tc creds repo remote branch w =
       (case remote_push tc (call_handle creds remote_obj repo) remote_obj
               (if truthy branch then Some branch else None) w of
          (Inl e, w') \<Rightarrow> (Inl e, w')
        | (Inr u, w') \<Rightarrow>
            (Inr (''Pushed changes to '' @ py_str tc remote @
                  (if truthy branch then ''/'' @ py_str tc branch else [])), w'))"
    using assms by (simp add: git_push_def io_defs split: prod.splits sum.splits)
  have fetch: "git_fetch tc creds repo remote w =
       (case remote_fetch tc (call_handle creds remote_obj repo) remote_obj w of
          (Inl e, w') \<Rightarrow> (Inl e, w')
        | (Inr u, w') \<Rightarrow> (Inr (''Fetched changes from '' @ py_str tc remote), w'))"
    using assms by (simp add: git_fetch_def io_defs split: prod.splits sum.splits)
  have pull: "git_pull tc creds repo remote branch rebase w =
       (case config_set_value tc repo ''pull'' ''rebase''
               (if truthy rebase then ''true'' else ''false'') w of
          (Inl e, w1) \<Rightarrow> (Inl e, w1)
        | (Inr u, w1) \<Rightarrow>
            (case git tc (call_handle creds remote_obj repo) ''pull''
                    (if truthy branch then [remote, branch] else []) w1 of
               (Inl e, w') \<Rightarrow> pull_handler e w'
             | (Inr v, w') \<Rightarrow>
                 (Inr (''Pulled and '' @ (if truthy rebase then ''rebased'' else ''merged'') @
                       '' changes from '' @ py_str tc remote @
                       (if truthy branch then ''/'' @ py_str tc branch else [])), w')))"
    using assms by (simp add: git_pull_def io_defs split: prod.splits sum.splits)
  from env call_handle_working_dir push fetch pull show ?thesis by blast
qed

text \<open>
  C8 on the project: a push to the https remote runs with the credentials in its
  environment; a fetch with no credentials configured runs without.
\<close>

theorem credentials_on_project:
  "environment (call_handle ada_login
       \<lparr>remote_name = ''origin'', remote_url = ''https://example.com/project.git''\<rparr> project_repo)
     ''GIT_USERNAME'' = Some ''ada'' \<and>
   environment (call_handle ada_login
       \<lparr>remote_name = ''origin'', remote_url = ''https://example.com/project.git''\<rparr> project_repo)
     ''GIT_PASSWORD'' = Some ''t0ken'' \<and>
   git_push sim_toolchain ada_login project_repo (PStr ''origin'') PNone project =
     (Inr ''Pushed changes to origin'', project\<lparr>network_login := (Some ''ada'', Some ''t0ken'')\<rparr>) \<and>
   git_fetch sim_toolchain no_login project_repo (PStr ''origin'') project =
     (Inr ''Fetched changes from origin'', project\<lparr>network_login := (None, None)\<rparr>)"
proof -
  let ?origin = "\<lparr>remote_name = ''origin'', remote_url = ''https://example.com/project.git''\<rparr>"
  have r: "remote_of sim_toolchain project_repo (PStr ''origin'') project = Inr ?origin"
    by (simp add: sim_defs)
  note t = credentials_for_https_remotes[OF r]
  have env: "environment (call_handle ada_login ?origin project_repo) =
      (environment project_repo)(''GIT_USERNAME'' \<mapsto> ''ada'', ''GIT_PASSWORD'' \<mapsto> ''t0ken'')"
    unfolding t[where creds = ada_login, THEN conjunct1]
    by (simp add: ada_login_def truthy_str_def)
  have env0: "environment (call_handle no_login ?origin project_repo) = environment project_repo"
    unfolding t[where creds = no_login, THEN conjunct1]
    by (simp add: no_login_def truthy_str_def)
  have push: "git_push sim_toolchain ada_login project_repo (PStr ''origin'') PNone project =
     (Inr ''Pushed changes to origin'', project\<lparr>network_login := (Some ''ada'', Some ''t0ken'')\<rparr>)"
    unfolding t[where creds = ada_login and branch = PNone, THEN conjunct2, THEN conjunct2, THEN conjunct1]
    by (simp add: sim_toolchain_def sim_network_def env)
  have fetch: "git_fetch sim_toolchain no_login project_repo (PStr ''origin'') project =
     (Inr ''Fetched changes from origin'', project\<lparr>network_login := (None, None)\<rparr>)"
    unfolding t[where creds = no_login, THEN conjunct2, THEN conjunct2, THEN conjunct2, THEN conjunct1]
    by (simp add: sim_toolchain_def sim_network_def env0) (simp add: project_repo_def)
  from env push fetch show ?thesis by simp
qed

text \<open>
  C8 as stated fails: the remote \<open>backup\<close> is reached over ssh, a network
  transport, and both credentials are set, yet the push runs without them.
\<close>

theorem no_credentials_for_ssh_remote:
  "remote_of sim_toolchain project_repo (PStr ''backup'') project =
     Inr \<lparr>remote_name = ''backup'', remote_url = ''ssh://git@example.com/project.git''\<rparr> \<and>
   spec_network_transport ''ssh://git@example.com/project.git'' \<and>
   truthy_str (GIT_USERNAME ada_login) \<and> truthy_str (GIT_TOKEN ada_login) \<and>
   environment (call_handle ada_login
       \<lparr>remote_name = ''backup'', remote_url = ''ssh://git@example.com/project.git''\<rparr> project_repo)
     ''GIT_USERNAME'' = None \<and>
   git_push sim_toolchain ada_login project_repo (PStr ''backup'') PNone
       (project\<lparr>network_login := (Some ''eve'', Some ''old'')\<rparr>) =
     (Inr ''Pushed changes to backup'', project\<lparr>network_login := (None, None)\<rparr>)"
  by (simp add: sim_defs spec_network_transport_def truthy_str_def call_handle_def
      use_credentials_def git_push_def io_defs)

text \<open>
  C1 fails on the code. A merge of \<open>feature\<close> stops on a conflict; the error text
  does not contain \<^verbatim>\<open>automatic merge failed\<close> in lower case, so \<open>git_merge\<close> re-raises
  the \<open>GitCommandError\<close> without running \<^verbatim>\<open>git merge --abort\<close>, and the merge is
  left in progress: no merge was in progress before the invocation, one is after
  it, and the invocation surfaces the error of git as it is.
\<close>

theorem merge_conflict_left_in_progress:
  "merge_head project = None \<and>
   git_merge sim_toolchain project_repo (PStr ''feature'') project =
     (Inl (GitCommandError (conflict_output ''git merge feature --no-ff'')),
      project\<lparr>merge_head := Some ''c3''\<rparr>) \<and>
   call_tool sim_toolchain no_login ''git_merge''
     [''repo_path'' \<mapsto> PStr ''/srv/project'', ''branch'' \<mapsto> PStr ''feature''] project =
     (Inl (GitCommandError (conflict_output ''git merge feature --no-ff'')),
      project\<lparr>merge_head := Some ''c3''\<rparr>)"
proof -
  have "git_merge sim_toolchain project_repo (PStr ''feature'') project =
      merge_handler sim_toolchain project_repo
        (GitCommandError (conflict_output ''git merge feature --no-ff''))
        (project\<lparr>merge_head := Some ''c3''\<rparr>)"
    by (simp add: git_merge_def find_merge_branch_def io_defs sim_toolchain_def sim_process_def
        sim_lookup_def sim_active_branch_def project_def)
  then have op: "git_merge sim_toolchain project_repo (PStr ''feature'') project =
     (Inl (GitCommandError (conflict_output ''git merge feature --no-ff'')),
      project\<lparr>merge_head := Some ''c3''\<rparr>)"
    by (simp add: merge_handler_other conflict_output_not_matched)
  have "call_tool sim_toolchain no_login ''git_merge''
     [''repo_path'' \<mapsto> PStr ''/srv/project'', ''branch'' \<mapsto> PStr ''feature''] project =
     io_bind (git_merge sim_toolchain project_repo (PStr ''feature''))
       (\<lambda>result. io_return [TextContent ''text'' result]) project"
    by (simp add: call_tool_def io_defs getitem_def Path_def match_name_def all_tools_def
        sim_toolchain_def sim_Repo_def project_repo_def)
  then have inv: "call_tool sim_toolchain no_login ''git_merge''
     [''repo_path'' \<mapsto> PStr ''/srv/project'', ''branch'' \<mapsto> PStr ''feature''] project =
     (Inl (GitCommandError (conflict_output ''git merge feature --no-ff'')),
      project\<lparr>merge_head := Some ''c3''\<rparr>)"
    by (simp add: io_bind_def op)
  have "merge_head project = None"
    by (simp add: project_def)
  with op inv show ?thesis by blast
qed

text \<open>
  C3 fails on the code. A pull whose merge stops on a conflict is not classified:
  for the same reason as in C1 the \<open>GitCommandError\<close> is re-raised as it is.
\<close>

theorem pull_conflict_unclassified:
  "git_pull sim_toolchain no_login project_repo (PStr ''origin'') PNone (PBool False) project =
     (Inl (GitCommandError (conflict_output ''git pull'')),
      project\<lparr>pull_rebase := Some ''false'', merge_head := Some ''c4''\<rparr>) \<and>
   call_tool sim_toolchain no_login ''git_pull'' [''repo_path'' \<mapsto> PStr ''/srv/project''] project =
     (Inl (GitCommandError (conflict_output ''git pull'')),
      project\<lparr>pull_rebase := Some ''false'', merge_head := Some ''c4''\<rparr>)"
proof -
  have "git_pull sim_toolchain no_login project_repo (PStr ''origin'') PNone (PBool False) project =
      pull_handler (GitCommandError (conflict_output ''git pull''))
        (project\<lparr>pull_rebase := Some ''false'', merge_head := Some ''c4''\<rparr>)"
    by (simp add: git_pull_def io_defs sim_toolchain_def sim_process_def sim_remote_of_def
        call_handle_def use_credentials_def no_login_def truthy_str_def project_def
        project_repo_def)
  then have op: "git_pull sim_toolchain no_login project_repo (PStr ''origin'') PNone (PBool False)
      project =
     (Inl (GitCommandError (conflict_output ''git pull'')),
      project\<lparr>pull_rebase := Some ''false'', merge_head := Some ''c4''\<rparr>)"
    by (simp add: pull_handler_classifies conflict_output_not_matched)
  have "call_tool sim_toolchain no_login ''git_pull'' [''repo_path'' \<mapsto> PStr ''/srv/project'']
      project =
     io_bind (git_pull sim_toolchain no_login project_repo (PStr ''origin'') PNone (PBool False))
       (\<lambda>result. io_return [TextContent ''text'' result]) project"
    by (simp add: call_tool_def io_defs getitem_def get_def Path_def match_name_def all_tools_def
        sim_toolchain_def sim_Repo_def project_repo_def)
  then have "call_tool sim_toolchain no_login ''git_pull'' [''repo_path'' \<mapsto> PStr ''/srv/project'']
      project =
     (Inl (GitCommandError (conflict_output ''git pull'')),
      project\<lparr>pull_rebase := Some ''false'', merge_head := Some ''c4''\<rparr>)"
    by (simp add: io_bind_def op)
  with op show ?thesis by (rule conjI)
qed

end
